theory Spec2Isabelle
  imports Main "HOL-Library.Word"
begin

section \<open>Lowering of GPU subgroup MMA operations to SPIR-V cooperative matrix operations\<close>

text \<open>
  A shallow embedding of \<^verbatim>\<open>mlir/lib/Conversion/GPUToSPIRV/WmmaOpsToSPIRV.cpp\<close>.
  Types, values and operations are datatypes, the typed operation classes
  (\<^verbatim>\<open>gpu::SubgroupMmaLoadMatrixOp\<close>, ...) are types of their own that the
  generic \<open>Operation\<close> injects, the rewriter is a log of the operations it was
  asked to create and of the replacements it was asked to make. Where the
  source has no defined result (a failed \<^verbatim>\<open>cast<>\<close>, an index or
  \<^verbatim>\<open>front()\<close>/\<^verbatim>\<open>back()\<close> outside a range), the model returns an \<open>error\<close>
  value. The one \<^verbatim>\<open>assert\<close> of the file is compiled out when \<^verbatim>\<open>NDEBUG\<close> is
  defined, and the code after it then runs: the rule that holds it takes
  \<open>NDEBUG\<close> as a parameter.
\<close>

subsection \<open>Errors and results\<close>

datatype error = CastFailure | IndexOutOfRange | EmptyRange | AssertionFailure

datatype LogicalResult = success | failure

text \<open>\<^verbatim>\<open>ArrayRef::operator[]\<close>, \<^verbatim>\<open>front()\<close> and \<^verbatim>\<open>back()\<close> assert that the element exists.\<close>

fun at :: "'a list \<Rightarrow> nat \<Rightarrow> error + 'a" where
  "at [] i = Inl IndexOutOfRange"
| "at (x # xs) 0 = Inr x"
| "at (x # xs) (Suc i) = at xs i"

fun front_elem :: "'a list \<Rightarrow> error + 'a" where
  "front_elem [] = Inl EmptyRange"
| "front_elem (x # xs) = Inr x"

fun back_elem :: "'a list \<Rightarrow> error + 'a" where
  "back_elem [] = Inl EmptyRange"
| "back_elem [x] = Inr x"
| "back_elem (x # y # xs) = back_elem (y # xs)"

subsection \<open>Types\<close>

text \<open>\<^verbatim>\<open>spirv::Scope\<close>.\<close>

datatype Scope = CrossDevice | Device | Workgroup | Subgroup | Invocation | QueueFamily

text \<open>
  The type universe. \<^verbatim>\<open>gpu::MMAMatrixType\<close> (shape, element type, operand
  name), \<^verbatim>\<open>spirv::CooperativeMatrixNVType\<close> (element type, scope, rows,
  columns) and \<^verbatim>\<open>MemRefType\<close> are typed subclasses of \<^verbatim>\<open>Type\<close>: each is a
  type of its own, injected into \<open>Type\<close>. \<open>NoneType\<close> is the type read from
  a value that is not a result.
\<close>

datatype Type =
    IntegerType nat
  | FloatType nat
  | IndexType
  | NoneType
  | PointerType Type
  | MemRef MemRefType
  | MMAMatrix MMAMatrixType
  | CooperativeMatrixNV CooperativeMatrixNVType
and MemRefType = MemRefType "int list" Type
and MMAMatrixType =
    MMAMatrixType (getShape: "int list") (getElementType: Type) (getOperand: string)
and CooperativeMatrixNVType =
    CooperativeMatrixNVType (coopElementType: Type) (coopScope: Scope)
      (coopRows: int) (coopColumns: int)

text \<open>\<^verbatim>\<open>cast<T>(type)\<close> asserts the class of the type; \<^verbatim>\<open>isa<T>(type)\<close> tests it.\<close>

fun cast_MMAMatrixType :: "Type \<Rightarrow> error + MMAMatrixType" where
  "cast_MMAMatrixType (MMAMatrix t) = Inr t"
| "cast_MMAMatrixType _ = Inl CastFailure"

fun cast_MemRefType :: "Type \<Rightarrow> error + MemRefType" where
  "cast_MemRefType (MemRef t) = Inr t"
| "cast_MemRefType _ = Inl CastFailure"

fun isa_CooperativeMatrixNVType :: "Type \<Rightarrow> bool" where
  "isa_CooperativeMatrixNVType (CooperativeMatrixNV t) = True"
| "isa_CooperativeMatrixNVType _ = False"

subsection \<open>The type translator\<close>

text \<open>
  \<^verbatim>\<open>spirv::CooperativeMatrixNVType::get(elementType, scope, rows, columns)\<close>
  is declared outside this file with \<^verbatim>\<open>unsigned rows, unsigned columns\<close>: an
  \<^verbatim>\<open>int64_t\<close> argument is converted to 32 bits unsigned, that is, taken
  modulo \<open>2\<^sup>3\<^sup>2\<close>.
\<close>

definition CooperativeMatrixNVType_get ::
    "Type \<Rightarrow> Scope \<Rightarrow> int \<Rightarrow> int \<Rightarrow> CooperativeMatrixNVType" where
  "CooperativeMatrixNVType_get elementType scope rows columns =
     CooperativeMatrixNVType elementType scope (rows mod 2 ^ 32) (columns mod 2 ^ 32)"

text \<open>
  \<^verbatim>\<open>convertMMAToSPIRVCoopMatrixNVType\<close>: reads \<^verbatim>\<open>retTypeShape[0]\<close> and
  \<^verbatim>\<open>retTypeShape[1]\<close> of the shape (\<^verbatim>\<open>int64_t\<close> entries) and builds the
  cooperative matrix type at subgroup scope.
\<close>

definition convertMMAToSPIRVCoopMatrixNVType ::
    "MMAMatrixType \<Rightarrow> error + CooperativeMatrixNVType" where
  "convertMMAToSPIRVCoopMatrixNVType type =
     (let retTypeShape = getShape type;
          elementType = getElementType type
      in case at retTypeShape 0 of
           Inl e \<Rightarrow> Inl e
         | Inr rows \<Rightarrow>
             (case at retTypeShape 1 of
                Inl e \<Rightarrow> Inl e
              | Inr columns \<Rightarrow>
                  Inr (CooperativeMatrixNVType_get elementType Subgroup rows columns)))"

subsection \<open>Attributes\<close>

text \<open>
  An \<^verbatim>\<open>IntegerAttr\<close> pairs an integer type with a value of the width of that
  type (an \<^verbatim>\<open>APInt\<close> of that many bits), kept here as its unsigned reading.
  The source builds the stride constant with \<^verbatim>\<open>IntegerAttr::get(i32Type, stride)\<close>
  from the \<^verbatim>\<open>int64_t stride\<close>: an attribute of a \<open>w\<close>-bit integer type holds
  the low \<open>w\<close> bits of the 64-bit value it is built from (all 64 for the
  index type), and the type is cast to an integer type otherwise.
  \<^verbatim>\<open>getBoolAttr\<close> builds a \<open>BoolAttr\<close>.
\<close>

datatype Attribute = IntegerAttr Type int | BoolAttr bool

fun IntegerAttr_get :: "Type \<Rightarrow> 64 word \<Rightarrow> error + Attribute" where
  "IntegerAttr_get IndexType v = Inr (IntegerAttr IndexType (uint v))"
| "IntegerAttr_get (IntegerType width) v =
     Inr (IntegerAttr (IntegerType width) (uint v mod 2 ^ width))"
| "IntegerAttr_get _ v = Inl CastFailure"

definition getI32Type :: Type where
  "getI32Type = IntegerType 32"

definition getI1Type :: Type where
  "getI1Type = IntegerType 1"

definition getBoolAttr :: "bool \<Rightarrow> Attribute" where
  "getBoolAttr b = BoolAttr b"

subsection \<open>Values and operations\<close>

text \<open>\<^verbatim>\<open>gpu::MMAElementwiseOp\<close>, the sub-kind of an elementwise operation.\<close>

datatype MMAElementwiseOp =
    ADDF | MULF | SUBF | MAXF | MINF | DIVF | ADDI | MULI | SUBI | DIVS | DIVU
  | NEGATEF | NEGATES | EXTF

text \<open>
  A value is a block argument or the result of its defining operation. The
  operations are those the file reads (the five GPU subgroup MMA operations)
  and builds (SPIR-V operations); \<open>OtherOp\<close> is any other operation, under its
  name. The stride of a load or store is the 64-bit \<^verbatim>\<open>APInt\<close> of its
  \<^verbatim>\<open>leadDimension\<close> attribute, the transpose flag is whether the unit
  attribute is present.
\<close>

datatype Value = BlockArgument Type nat | OpResult Operation
and Operation =
    GPU_SubgroupMmaLoadMatrix SubgroupMmaLoadMatrixOp
  | GPU_SubgroupMmaStoreMatrix SubgroupMmaStoreMatrixOp
  | GPU_SubgroupMmaCompute SubgroupMmaComputeOp
  | GPU_SubgroupMmaConstantMatrix SubgroupMmaConstantMatrixOp
  | GPU_SubgroupMmaElementwise SubgroupMmaElementwiseOp
  | SPIRV_Constant Type Attribute
  | SPIRV_NVCooperativeMatrixLoad Type Value Value Value "Attribute option"
  | SPIRV_NVCooperativeMatrixStore Value Value Value Value "Attribute option"
  | SPIRV_NVCooperativeMatrixMulAdd Type Value Value Value
  | SPIRV_CompositeConstruct CompositeConstructOp
  | SPIRV_MatrixTimesScalar Type "Value list"
  | SPIRV_FAdd Type "Value list"
  | SPIRV_IAdd Type "Value list"
  | SPIRV_FSub Type "Value list"
  | SPIRV_ISub Type "Value list"
  | SPIRV_FDiv Type "Value list"
  | SPIRV_SDiv Type "Value list"
  | SPIRV_UDiv Type "Value list"
  | SPIRV_FNegate Type "Value list"
  | SPIRV_SNegate Type "Value list"
  | SPIRV_FConvert Type "Value list"
  | OtherOp string "Value list" Type
and SubgroupMmaLoadMatrixOp =
    SubgroupMmaLoadMatrixOp (Load_getSrcMemref: Value) (Load_getIndices: "Value list")
      (Load_getLeadDimension: "64 word") (Load_getTranspose: bool) (Load_resType: Type)
and SubgroupMmaStoreMatrixOp =
    SubgroupMmaStoreMatrixOp (Store_getSrc: Value) (Store_getDstMemref: Value)
      (Store_getIndices: "Value list") (Store_getLeadDimension: "64 word")
      (Store_getTranspose: bool)
and SubgroupMmaComputeOp =
    SubgroupMmaComputeOp (Compute_getOpA: Value) (Compute_getOpB: Value)
      (Compute_getOpC: Value) (Compute_resType: Type)
and SubgroupMmaConstantMatrixOp =
    SubgroupMmaConstantMatrixOp (Constant_getValue: Value) (Constant_getType: Type)
and SubgroupMmaElementwiseOp =
    SubgroupMmaElementwiseOp (Elementwise_getOperands: "Value list")
      (Elementwise_getOpType: MMAElementwiseOp) (Elementwise_getType: Type)
and CompositeConstructOp =
    CompositeConstructOp (CompositeConstruct_getType: Type) (getConstituents: "Value list")

text \<open>The type of an operation's result (\<open>NoneType\<close> for the two stores, which have none).\<close>

fun resultType :: "Operation \<Rightarrow> Type" where
  "resultType (GPU_SubgroupMmaLoadMatrix op) = Load_resType op"
| "resultType (GPU_SubgroupMmaStoreMatrix op) = NoneType"
| "resultType (GPU_SubgroupMmaCompute op) = Compute_resType op"
| "resultType (GPU_SubgroupMmaConstantMatrix op) = Constant_getType op"
| "resultType (GPU_SubgroupMmaElementwise op) = Elementwise_getType op"
| "resultType (SPIRV_Constant t a) = t"
| "resultType (SPIRV_NVCooperativeMatrixLoad t p s c m) = t"
| "resultType (SPIRV_NVCooperativeMatrixStore p ob s c m) = NoneType"
| "resultType (SPIRV_NVCooperativeMatrixMulAdd t a b c) = t"
| "resultType (SPIRV_CompositeConstruct op) = CompositeConstruct_getType op"
| "resultType (SPIRV_MatrixTimesScalar t vs) = t"
| "resultType (SPIRV_FAdd t vs) = t"
| "resultType (SPIRV_IAdd t vs) = t"
| "resultType (SPIRV_FSub t vs) = t"
| "resultType (SPIRV_ISub t vs) = t"
| "resultType (SPIRV_FDiv t vs) = t"
| "resultType (SPIRV_SDiv t vs) = t"
| "resultType (SPIRV_UDiv t vs) = t"
| "resultType (SPIRV_FNegate t vs) = t"
| "resultType (SPIRV_SNegate t vs) = t"
| "resultType (SPIRV_FConvert t vs) = t"
| "resultType (OtherOp n vs t) = t"

fun getType :: "Value \<Rightarrow> Type" where
  "getType (BlockArgument t n) = t"
| "getType (OpResult op) = resultType op"

text \<open>\<^verbatim>\<open>Operation::getResults()\<close>: the stores have no result, every other operation here has one.\<close>

fun getResults :: "Operation \<Rightarrow> Value list" where
  "getResults (GPU_SubgroupMmaStoreMatrix op) = []"
| "getResults (SPIRV_NVCooperativeMatrixStore p ob s c m) = []"
| "getResults op = [OpResult op]"

text \<open>\<^verbatim>\<open>subgroupMmaLoadMatrixOp.getRes()\<close>, the result of the load.\<close>

definition Load_getRes :: "SubgroupMmaLoadMatrixOp \<Rightarrow> Value" where
  "Load_getRes op = OpResult (GPU_SubgroupMmaLoadMatrix op)"

text \<open>
  \<^verbatim>\<open>value.getDefiningOp<T>()\<close>: the defining operation when the value is a
  result and that operation is a \<open>T\<close>, null otherwise.
\<close>

fun getDefiningOp_SubgroupMmaConstantMatrixOp ::
    "Value \<Rightarrow> SubgroupMmaConstantMatrixOp option" where
  "getDefiningOp_SubgroupMmaConstantMatrixOp (OpResult (GPU_SubgroupMmaConstantMatrix op)) =
     Some op"
| "getDefiningOp_SubgroupMmaConstantMatrixOp _ = None"

fun getDefiningOp_CompositeConstructOp :: "Value \<Rightarrow> CompositeConstructOp option" where
  "getDefiningOp_CompositeConstructOp (OpResult (SPIRV_CompositeConstruct op)) = Some op"
| "getDefiningOp_CompositeConstructOp _ = None"

text \<open>The operand adaptors hold the already converted operands of the operation.\<close>

datatype SubgroupMmaLoadMatrixOpAdaptor =
  SubgroupMmaLoadMatrixOpAdaptor (LoadAdaptor_getSrcMemref: Value)
    (LoadAdaptor_getIndices: "Value list")

datatype SubgroupMmaStoreMatrixOpAdaptor =
  SubgroupMmaStoreMatrixOpAdaptor (StoreAdaptor_getSrc: Value)
    (StoreAdaptor_getDstMemref: Value) (StoreAdaptor_getIndices: "Value list")

datatype SubgroupMmaComputeOpAdaptor =
  SubgroupMmaComputeOpAdaptor (ComputeAdaptor_getOpA: Value) (ComputeAdaptor_getOpB: Value)
    (ComputeAdaptor_getOpC: Value)

datatype SubgroupMmaConstantMatrixOpAdaptor =
  SubgroupMmaConstantMatrixOpAdaptor (ConstantAdaptor_getOperands: "Value list")

datatype SubgroupMmaElementwiseOpAdaptor =
  SubgroupMmaElementwiseOpAdaptor (ElementwiseAdaptor_getOperands: "Value list")

subsection \<open>The rewriter\<close>

text \<open>
  The \<^verbatim>\<open>ConversionPatternRewriter\<close> is the log of what it was asked to do, in
  order: operations created, and operations replaced by values.
  \<^verbatim>\<open>replaceOpWithNewOp<T>(op, args...)\<close> creates the \<open>T\<close> and replaces \<open>op\<close>
  by its results.
\<close>

datatype RewriteAction = Create Operation | Replace Operation "Value list"

type_synonym ConversionPatternRewriter = "RewriteAction list"

definition create ::
    "ConversionPatternRewriter \<Rightarrow> Operation \<Rightarrow> Operation \<times> ConversionPatternRewriter" where
  "create rewriter newOp = (newOp, rewriter @ [Create newOp])"

definition replaceOp ::
    "ConversionPatternRewriter \<Rightarrow> Operation \<Rightarrow> Value list \<Rightarrow> ConversionPatternRewriter" where
  "replaceOp rewriter op newValues = rewriter @ [Replace op newValues]"

definition replaceOpWithNewOp ::
    "ConversionPatternRewriter \<Rightarrow> Operation \<Rightarrow> Operation \<Rightarrow> ConversionPatternRewriter" where
  "replaceOpWithNewOp rewriter op newOp =
     (case create rewriter newOp of
        (created, rewriter') \<Rightarrow> replaceOp rewriter' op (getResults created))"

text \<open>
  \<^verbatim>\<open>spirv::getElementPtr\<close> computes the element address from the memref type,
  the converted base pointer and the converted indices, building operations
  with the rewriter. It is an external collaborator and a parameter of the
  load and store rules, which use the value it returns as it is, without a
  test.
\<close>

type_synonym ElementPtr =
  "MemRefType \<Rightarrow> Value \<Rightarrow> Value list \<Rightarrow> ConversionPatternRewriter
     \<Rightarrow> Value \<times> ConversionPatternRewriter"

section \<open>The rewrite rules\<close>

text \<open>
  Each \<open>matchAndRewrite\<close> takes the typed operation, its adaptor and the
  rewriter, and returns the \<open>LogicalResult\<close> with the rewriter after it, or
  the assertion that stopped it.
\<close>

type_synonym RuleResult = "error + (LogicalResult \<times> ConversionPatternRewriter)"

subsection \<open>createElementwiseOp\<close>

fun createElementwiseOp ::
    "ConversionPatternRewriter \<Rightarrow> SubgroupMmaElementwiseOp \<Rightarrow> CooperativeMatrixNVType
       \<Rightarrow> Value list \<Rightarrow> bool \<times> ConversionPatternRewriter" where
  "createElementwiseOp builder op coopType operands =
     (case Elementwise_getOpType op of
        ADDF \<Rightarrow> (True, replaceOpWithNewOp builder (GPU_SubgroupMmaElementwise op)
                        (SPIRV_FAdd (CooperativeMatrixNV coopType) operands))
      | ADDI \<Rightarrow> (True, replaceOpWithNewOp builder (GPU_SubgroupMmaElementwise op)
                        (SPIRV_IAdd (CooperativeMatrixNV coopType) operands))
      | SUBF \<Rightarrow> (True, replaceOpWithNewOp builder (GPU_SubgroupMmaElementwise op)
                        (SPIRV_FSub (CooperativeMatrixNV coopType) operands))
      | SUBI \<Rightarrow> (True, replaceOpWithNewOp builder (GPU_SubgroupMmaElementwise op)
                        (SPIRV_ISub (CooperativeMatrixNV coopType) operands))
      | DIVF \<Rightarrow> (True, replaceOpWithNewOp builder (GPU_SubgroupMmaElementwise op)
                        (SPIRV_FDiv (CooperativeMatrixNV coopType) operands))
      | DIVS \<Rightarrow> (True, replaceOpWithNewOp builder (GPU_SubgroupMmaElementwise op)
                        (SPIRV_SDiv (CooperativeMatrixNV coopType) operands))
      | DIVU \<Rightarrow> (True, replaceOpWithNewOp builder (GPU_SubgroupMmaElementwise op)
                        (SPIRV_UDiv (CooperativeMatrixNV coopType) operands))
      | NEGATEF \<Rightarrow> (True, replaceOpWithNewOp builder (GPU_SubgroupMmaElementwise op)
                        (SPIRV_FNegate (CooperativeMatrixNV coopType) operands))
      | NEGATES \<Rightarrow> (True, replaceOpWithNewOp builder (GPU_SubgroupMmaElementwise op)
                        (SPIRV_SNegate (CooperativeMatrixNV coopType) operands))
      | EXTF \<Rightarrow> (True, replaceOpWithNewOp builder (GPU_SubgroupMmaElementwise op)
                        (SPIRV_FConvert (CooperativeMatrixNV coopType) operands))
      | _ \<Rightarrow> (False, builder))"

subsection \<open>WmmaLoadOpToSPIRVLowering\<close>

definition WmmaLoadOpToSPIRVLowering_matchAndRewrite ::
    "ElementPtr \<Rightarrow> SubgroupMmaLoadMatrixOp \<Rightarrow> SubgroupMmaLoadMatrixOpAdaptor
       \<Rightarrow> ConversionPatternRewriter \<Rightarrow> RuleResult" where
  "WmmaLoadOpToSPIRVLowering_matchAndRewrite getElementPtr subgroupMmaLoadMatrixOp adaptor rewriter =
     (case cast_MMAMatrixType (getType (Load_getRes subgroupMmaLoadMatrixOp)) of
        Inl e \<Rightarrow> Inl e
      | Inr retType \<Rightarrow>
     (case cast_MemRefType (getType (Load_getSrcMemref subgroupMmaLoadMatrixOp)) of
        Inl e \<Rightarrow> Inl e
      | Inr memrefType \<Rightarrow>
     (case getElementPtr memrefType (LoadAdaptor_getSrcMemref adaptor)
             (LoadAdaptor_getIndices adaptor) rewriter of
        (bufferPtr, rewriter1) \<Rightarrow>
     (case convertMMAToSPIRVCoopMatrixNVType retType of
        Inl e \<Rightarrow> Inl e
      | Inr coopType \<Rightarrow>
     (let stride = Load_getLeadDimension subgroupMmaLoadMatrixOp;
          i32Type = getI32Type
      in case IntegerAttr_get i32Type stride of
           Inl e \<Rightarrow> Inl e
         | Inr strideAttr \<Rightarrow>
     (case create rewriter1 (SPIRV_Constant i32Type strideAttr) of
        (strideValue, rewriter2) \<Rightarrow>
     (let isColMajor = Load_getTranspose subgroupMmaLoadMatrixOp
      in case create rewriter2 (SPIRV_Constant getI1Type (getBoolAttr isColMajor)) of
           (columnMajor, rewriter3) \<Rightarrow>
             Inr (success,
                  replaceOpWithNewOp rewriter3
                    (GPU_SubgroupMmaLoadMatrix subgroupMmaLoadMatrixOp)
                    (SPIRV_NVCooperativeMatrixLoad (CooperativeMatrixNV coopType) bufferPtr
                       (OpResult strideValue) (OpResult columnMajor) None)))))))))"

subsection \<open>WmmaStoreOpToSPIRVLowering\<close>

definition WmmaStoreOpToSPIRVLowering_matchAndRewrite ::
    "ElementPtr \<Rightarrow> SubgroupMmaStoreMatrixOp \<Rightarrow> SubgroupMmaStoreMatrixOpAdaptor
       \<Rightarrow> ConversionPatternRewriter \<Rightarrow> RuleResult" where
  "WmmaStoreOpToSPIRVLowering_matchAndRewrite getElementPtr subgroupMmaStoreMatrixOp adaptor rewriter =
     (case cast_MemRefType (getType (Store_getDstMemref subgroupMmaStoreMatrixOp)) of
        Inl e \<Rightarrow> Inl e
      | Inr memrefType \<Rightarrow>
     (case getElementPtr memrefType (StoreAdaptor_getDstMemref adaptor)
             (StoreAdaptor_getIndices adaptor) rewriter of
        (bufferPtr, rewriter1) \<Rightarrow>
     (let stride = Store_getLeadDimension subgroupMmaStoreMatrixOp;
          i32Type = getI32Type
      in case IntegerAttr_get i32Type stride of
           Inl e \<Rightarrow> Inl e
         | Inr strideAttr \<Rightarrow>
     (case create rewriter1 (SPIRV_Constant i32Type strideAttr) of
        (strideValue, rewriter2) \<Rightarrow>
     (let useColMajor = Store_getTranspose subgroupMmaStoreMatrixOp
      in case create rewriter2 (SPIRV_Constant getI1Type (getBoolAttr useColMajor)) of
           (columnMajor, rewriter3) \<Rightarrow>
             Inr (success,
                  replaceOpWithNewOp rewriter3
                    (GPU_SubgroupMmaStoreMatrix subgroupMmaStoreMatrixOp)
                    (SPIRV_NVCooperativeMatrixStore bufferPtr (StoreAdaptor_getSrc adaptor)
                       (OpResult strideValue) (OpResult columnMajor) None)))))))"

subsection \<open>WmmaMmaOpToSPIRVLowering\<close>

definition WmmaMmaOpToSPIRVLowering_matchAndRewrite ::
    "SubgroupMmaComputeOp \<Rightarrow> SubgroupMmaComputeOpAdaptor
       \<Rightarrow> ConversionPatternRewriter \<Rightarrow> RuleResult" where
  "WmmaMmaOpToSPIRVLowering_matchAndRewrite subgroupMmaComputeOp adaptor rewriter =
     Inr (success,
          replaceOpWithNewOp rewriter (GPU_SubgroupMmaCompute subgroupMmaComputeOp)
            (SPIRV_NVCooperativeMatrixMulAdd (getType (ComputeAdaptor_getOpC adaptor))
               (ComputeAdaptor_getOpA adaptor) (ComputeAdaptor_getOpB adaptor)
               (ComputeAdaptor_getOpC adaptor)))"

subsection \<open>WmmaConstantOpToSPIRVLowering\<close>

definition WmmaConstantOpToSPIRVLowering_matchAndRewrite ::
    "SubgroupMmaConstantMatrixOp \<Rightarrow> SubgroupMmaConstantMatrixOpAdaptor
       \<Rightarrow> ConversionPatternRewriter \<Rightarrow> RuleResult" where
  "WmmaConstantOpToSPIRVLowering_matchAndRewrite subgroupMmaConstantMatrixOp adaptor rewriter =
     (case at (ConstantAdaptor_getOperands adaptor) 0 of
        Inl e \<Rightarrow> Inl e
      | Inr cst \<Rightarrow>
     (case cast_MMAMatrixType (Constant_getType subgroupMmaConstantMatrixOp) of
        Inl e \<Rightarrow> Inl e
      | Inr mmaType \<Rightarrow>
     (case convertMMAToSPIRVCoopMatrixNVType mmaType of
        Inl e \<Rightarrow> Inl e
      | Inr coopType \<Rightarrow>
          Inr (success,
               replaceOpWithNewOp rewriter
                 (GPU_SubgroupMmaConstantMatrix subgroupMmaConstantMatrixOp)
                 (SPIRV_CompositeConstruct
                    (CompositeConstructOp (CooperativeMatrixNV coopType) [cst]))))))"

subsection \<open>WmmaElementwiseOpToSPIRVDefaultLowering\<close>

text \<open>The loop over the converted operands: all of them are of cooperative matrix type.\<close>

primrec allCooperativeMatrixNV :: "Value list \<Rightarrow> bool" where
  "allCooperativeMatrixNV [] = True"
| "allCooperativeMatrixNV (operand # operands) =
     (if \<not> isa_CooperativeMatrixNVType (getType operand) then False
      else allCooperativeMatrixNV operands)"

definition success_if :: "bool \<Rightarrow> LogicalResult" where
  "success_if isSuccess = (if isSuccess then success else failure)"

definition WmmaElementwiseOpToSPIRVDefaultLowering_matchAndRewrite ::
    "SubgroupMmaElementwiseOp \<Rightarrow> SubgroupMmaElementwiseOpAdaptor
       \<Rightarrow> ConversionPatternRewriter \<Rightarrow> RuleResult" where
  "WmmaElementwiseOpToSPIRVDefaultLowering_matchAndRewrite elementwiseOp adaptor rewriter =
     (if \<not> allCooperativeMatrixNV (ElementwiseAdaptor_getOperands adaptor)
      then Inr (failure, rewriter)
      else
     (case cast_MMAMatrixType (Elementwise_getType elementwiseOp) of
        Inl e \<Rightarrow> Inl e
      | Inr mmaType \<Rightarrow>
     (case convertMMAToSPIRVCoopMatrixNVType mmaType of
        Inl e \<Rightarrow> Inl e
      | Inr coopType \<Rightarrow>
     (case createElementwiseOp rewriter elementwiseOp coopType
             (ElementwiseAdaptor_getOperands adaptor) of
        (created, rewriter') \<Rightarrow> Inr (success_if created, rewriter')))))"

subsection \<open>WmmaElementwiseOpToSPIRVScalarMulLowering\<close>

text \<open>
  \<open>lhs\<close> and \<open>rhs\<close> are the first and last original operand, \<open>splat\<close> and
  \<open>matrix\<close> start as null values. Matching the converted operands against a
  list of two is the size test with \<^verbatim>\<open>front()\<close> and \<^verbatim>\<open>back()\<close> of that range.
  \<^verbatim>\<open>assert(cc.getConstituents().size() == 1)\<close> stops the rule unless
  \<open>NDEBUG\<close> is defined; with \<open>NDEBUG\<close> the rule goes on to
  \<^verbatim>\<open>cc.getConstituents().front()\<close>, which is the first constituent when there
  is one and has no defined result on an empty range.
\<close>

definition WmmaElementwiseOpToSPIRVScalarMulLowering_matchAndRewrite ::
    "bool \<Rightarrow> SubgroupMmaElementwiseOp \<Rightarrow> SubgroupMmaElementwiseOpAdaptor
       \<Rightarrow> ConversionPatternRewriter \<Rightarrow> RuleResult" where
  "WmmaElementwiseOpToSPIRVScalarMulLowering_matchAndRewrite NDEBUG elementwiseOp adaptor
       rewriter =
     (case ElementwiseAdaptor_getOperands adaptor of
        [adaptorFront, adaptorBack] \<Rightarrow>
          (if \<not> allCooperativeMatrixNV (ElementwiseAdaptor_getOperands adaptor)
           then Inr (failure, rewriter)
           else if Elementwise_getOpType elementwiseOp \<noteq> MULF
           then Inr (failure, rewriter)
           else
          (case front_elem (Elementwise_getOperands elementwiseOp) of
             Inl e \<Rightarrow> Inl e
           | Inr lhs \<Rightarrow>
          (case back_elem (Elementwise_getOperands elementwiseOp) of
             Inl e \<Rightarrow> Inl e
           | Inr rhs \<Rightarrow>
          (case (if getDefiningOp_SubgroupMmaConstantMatrixOp lhs \<noteq> None
                 then (Some adaptorFront, Some adaptorBack)
                 else if getDefiningOp_SubgroupMmaConstantMatrixOp rhs \<noteq> None
                 then (Some adaptorBack, Some adaptorFront)
                 else (None, None)) of
             (Some splat, Some matrix) \<Rightarrow>
               (case getDefiningOp_CompositeConstructOp splat of
                  None \<Rightarrow> Inr (failure, rewriter)
                | Some cc \<Rightarrow>
                    (if \<not> NDEBUG \<and> length (getConstituents cc) \<noteq> 1
                     then Inl AssertionFailure
                     else
                    (case front_elem (getConstituents cc) of
                       Inl e \<Rightarrow> Inl e
                     | Inr scalar \<Rightarrow>
                    (case cast_MMAMatrixType (Elementwise_getType elementwiseOp) of
                       Inl e \<Rightarrow> Inl e
                     | Inr mmaType \<Rightarrow>
                    (case convertMMAToSPIRVCoopMatrixNVType mmaType of
                       Inl e \<Rightarrow> Inl e
                     | Inr coopType \<Rightarrow>
                         Inr (success,
                              replaceOpWithNewOp rewriter
                                (GPU_SubgroupMmaElementwise elementwiseOp)
                                (SPIRV_MatrixTimesScalar (CooperativeMatrixNV coopType)
                                   [matrix, scalar])))))))
           | _ \<Rightarrow> Inr (failure, rewriter)))))
      | _ \<Rightarrow> Inr (failure, rewriter))"

section \<open>Registration and dispatch\<close>

subsection \<open>The six patterns and their root operations\<close>

datatype Pattern =
    WmmaLoadOpToSPIRVLowering
  | WmmaMmaOpToSPIRVLowering
  | WmmaStoreOpToSPIRVLowering
  | WmmaConstantOpToSPIRVLowering
  | WmmaElementwiseOpToSPIRVDefaultLowering
  | WmmaElementwiseOpToSPIRVScalarMulLowering

text \<open>
  The name of an operation, \<open>dialect.mnemonic\<close> (the names of the operation
  classes are declared with the two dialects, outside this file), and the
  dialect namespace in it.
\<close>

fun getName :: "Operation \<Rightarrow> string" where
  "getName (GPU_SubgroupMmaLoadMatrix op) = ''gpu.subgroup_mma_load_matrix''"
| "getName (GPU_SubgroupMmaStoreMatrix op) = ''gpu.subgroup_mma_store_matrix''"
| "getName (GPU_SubgroupMmaCompute op) = ''gpu.subgroup_mma_compute''"
| "getName (GPU_SubgroupMmaConstantMatrix op) = ''gpu.subgroup_mma_constant_matrix''"
| "getName (GPU_SubgroupMmaElementwise op) = ''gpu.subgroup_mma_elementwise''"
| "getName (SPIRV_Constant t a) = ''spirv.Constant''"
| "getName (SPIRV_NVCooperativeMatrixLoad t p s c m) = ''spirv.NV.CooperativeMatrixLoad''"
| "getName (SPIRV_NVCooperativeMatrixStore p ob s c m) = ''spirv.NV.CooperativeMatrixStore''"
| "getName (SPIRV_NVCooperativeMatrixMulAdd t a b c) = ''spirv.NV.CooperativeMatrixMulAdd''"
| "getName (SPIRV_CompositeConstruct op) = ''spirv.CompositeConstruct''"
| "getName (SPIRV_MatrixTimesScalar t vs) = ''spirv.MatrixTimesScalar''"
| "getName (SPIRV_FAdd t vs) = ''spirv.FAdd''"
| "getName (SPIRV_IAdd t vs) = ''spirv.IAdd''"
| "getName (SPIRV_FSub t vs) = ''spirv.FSub''"
| "getName (SPIRV_ISub t vs) = ''spirv.ISub''"
| "getName (SPIRV_FDiv t vs) = ''spirv.FDiv''"
| "getName (SPIRV_SDiv t vs) = ''spirv.SDiv''"
| "getName (SPIRV_UDiv t vs) = ''spirv.UDiv''"
| "getName (SPIRV_FNegate t vs) = ''spirv.FNegate''"
| "getName (SPIRV_SNegate t vs) = ''spirv.SNegate''"
| "getName (SPIRV_FConvert t vs) = ''spirv.FConvert''"
| "getName (OtherOp n vs t) = n"

definition getDialectNamespace :: "string \<Rightarrow> string" where
  "getDialectNamespace name = takeWhile (\<lambda>c. c \<noteq> CHR ''.'') name"

text \<open>
  The root operation of a pattern is the operation class its
  \<^verbatim>\<open>OpConversionPattern<...>\<close> base is instantiated with.
\<close>

fun rootKind :: "Pattern \<Rightarrow> string" where
  "rootKind WmmaLoadOpToSPIRVLowering = ''gpu.subgroup_mma_load_matrix''"
| "rootKind WmmaMmaOpToSPIRVLowering = ''gpu.subgroup_mma_compute''"
| "rootKind WmmaStoreOpToSPIRVLowering = ''gpu.subgroup_mma_store_matrix''"
| "rootKind WmmaConstantOpToSPIRVLowering = ''gpu.subgroup_mma_constant_matrix''"
| "rootKind WmmaElementwiseOpToSPIRVDefaultLowering = ''gpu.subgroup_mma_elementwise''"
| "rootKind WmmaElementwiseOpToSPIRVScalarMulLowering = ''gpu.subgroup_mma_elementwise''"

subsection \<open>populateGpuWMMAToSPIRVCoopMatrixNVConversionPatterns\<close>

text \<open>
  Modelled from the spec: the benefit a pattern gets when \<^verbatim>\<open>patterns.add\<close> is
  given none (the default argument of the \<^verbatim>\<open>OpConversionPattern\<close> constructor,
  declared outside this file) is "the baseline weight 1".
\<close>

definition baselineBenefit :: nat where
  "baselineBenefit = 1"

text \<open>A pattern set is the list of the inserted patterns with their benefits, in insertion order.\<close>

type_synonym RewritePatternSet = "(Pattern \<times> nat) list"

definition RewritePatternSet_add ::
    "Pattern list \<Rightarrow> nat \<Rightarrow> RewritePatternSet \<Rightarrow> RewritePatternSet" where
  "RewritePatternSet_add newPatterns benefit patterns =
     patterns @ map (\<lambda>p. (p, benefit)) newPatterns"

definition populateGpuWMMAToSPIRVCoopMatrixNVConversionPatterns ::
    "RewritePatternSet \<Rightarrow> RewritePatternSet" where
  "populateGpuWMMAToSPIRVCoopMatrixNVConversionPatterns patterns =
     RewritePatternSet_add [WmmaElementwiseOpToSPIRVScalarMulLowering] 2
       (RewritePatternSet_add
          [WmmaLoadOpToSPIRVLowering, WmmaMmaOpToSPIRVLowering, WmmaStoreOpToSPIRVLowering,
           WmmaConstantOpToSPIRVLowering, WmmaElementwiseOpToSPIRVDefaultLowering]
          baselineBenefit patterns)"

subsection \<open>The pattern driver\<close>

text \<open>
  Modelled from the spec: the generic entry of a pattern (of the
  \<^verbatim>\<open>OpConversionPattern\<close> base class, outside this file), which hands an
  operation and its converted operands to the typed \<open>matchAndRewrite\<close>. A
  rule is "scoped to one or more operation kinds": the operation is cast to
  the root class of the pattern, and the adaptor reads the converted operands
  by position: "source buffer reference, index list" for a load; the source
  matrix value, then "destination buffer reference, index list" for a store;
  "three matrix operands (A, B, accumulator C)" for a multiply-accumulate.
\<close>

definition matchAndRewrite ::
    "bool \<Rightarrow> ElementPtr \<Rightarrow> Pattern \<Rightarrow> Operation \<Rightarrow> Value list \<Rightarrow> ConversionPatternRewriter
       \<Rightarrow> RuleResult" where
  "matchAndRewrite NDEBUG getElementPtr pattern op operands rewriter =
     (case pattern of
        WmmaLoadOpToSPIRVLowering \<Rightarrow>
          (case op of
             GPU_SubgroupMmaLoadMatrix sourceOp \<Rightarrow>
               (case operands of
                  srcMemref # indices \<Rightarrow>
                    WmmaLoadOpToSPIRVLowering_matchAndRewrite getElementPtr sourceOp
                      (SubgroupMmaLoadMatrixOpAdaptor srcMemref indices) rewriter
                | _ \<Rightarrow> Inl IndexOutOfRange)
           | _ \<Rightarrow> Inl CastFailure)
      | WmmaStoreOpToSPIRVLowering \<Rightarrow>
          (case op of
             GPU_SubgroupMmaStoreMatrix sourceOp \<Rightarrow>
               (case operands of
                  src # dstMemref # indices \<Rightarrow>
                    WmmaStoreOpToSPIRVLowering_matchAndRewrite getElementPtr sourceOp
                      (SubgroupMmaStoreMatrixOpAdaptor src dstMemref indices) rewriter
                | _ \<Rightarrow> Inl IndexOutOfRange)
           | _ \<Rightarrow> Inl CastFailure)
      | WmmaMmaOpToSPIRVLowering \<Rightarrow>
          (case op of
             GPU_SubgroupMmaCompute sourceOp \<Rightarrow>
               (case operands of
                  [opA, opB, opC] \<Rightarrow>
                    WmmaMmaOpToSPIRVLowering_matchAndRewrite sourceOp
                      (SubgroupMmaComputeOpAdaptor opA opB opC) rewriter
                | _ \<Rightarrow> Inl IndexOutOfRange)
           | _ \<Rightarrow> Inl CastFailure)
      | WmmaConstantOpToSPIRVLowering \<Rightarrow>
          (case op of
             GPU_SubgroupMmaConstantMatrix sourceOp \<Rightarrow>
               WmmaConstantOpToSPIRVLowering_matchAndRewrite sourceOp
                 (SubgroupMmaConstantMatrixOpAdaptor operands) rewriter
           | _ \<Rightarrow> Inl CastFailure)
      | WmmaElementwiseOpToSPIRVDefaultLowering \<Rightarrow>
          (case op of
             GPU_SubgroupMmaElementwise sourceOp \<Rightarrow>
               WmmaElementwiseOpToSPIRVDefaultLowering_matchAndRewrite sourceOp
                 (SubgroupMmaElementwiseOpAdaptor operands) rewriter
           | _ \<Rightarrow> Inl CastFailure)
      | WmmaElementwiseOpToSPIRVScalarMulLowering \<Rightarrow>
          (case op of
             GPU_SubgroupMmaElementwise sourceOp \<Rightarrow>
               WmmaElementwiseOpToSPIRVScalarMulLowering_matchAndRewrite NDEBUG sourceOp
                 (SubgroupMmaElementwiseOpAdaptor operands) rewriter
           | _ \<Rightarrow> Inl CastFailure))"

text \<open>
  Modelled from the spec: the driver that tries the rules on an operation (the
  pattern applicator, outside this file). "Represent as an explicit list of
  (rule, weight) registered against a shared dispatch table keyed by operation
  kind, sorted descending by weight; the first rule that does not decline
  wins." \<open>candidates\<close> are the rules registered for the kind of the operation,
  by descending weight (insertion order among equal weights); \<open>tryPatterns\<close>
  commits the first that does not decline, and reports failure, with the
  rewriter as it was, when all decline or there is none.
\<close>

definition candidates :: "RewritePatternSet \<Rightarrow> Operation \<Rightarrow> Pattern list" where
  "candidates patterns op =
     map fst (sort_key (\<lambda>entry. - int (snd entry))
                (filter (\<lambda>entry. rootKind (fst entry) = getName op) patterns))"

fun tryPatterns ::
    "bool \<Rightarrow> ElementPtr \<Rightarrow> Pattern list \<Rightarrow> Operation \<Rightarrow> Value list \<Rightarrow> ConversionPatternRewriter
       \<Rightarrow> RuleResult" where
  "tryPatterns NDEBUG getElementPtr [] op operands rewriter = Inr (failure, rewriter)"
| "tryPatterns NDEBUG getElementPtr (pattern # rest) op operands rewriter =
     (case matchAndRewrite NDEBUG getElementPtr pattern op operands rewriter of
        Inl e \<Rightarrow> Inl e
      | Inr (success, rewriter') \<Rightarrow> Inr (success, rewriter')
      | Inr (failure, rewriter') \<Rightarrow>
          tryPatterns NDEBUG getElementPtr rest op operands rewriter)"

definition applyPatterns ::
    "bool \<Rightarrow> ElementPtr \<Rightarrow> RewritePatternSet \<Rightarrow> Operation \<Rightarrow> Value list
       \<Rightarrow> ConversionPatternRewriter \<Rightarrow> RuleResult" where
  "applyPatterns NDEBUG getElementPtr patterns op operands rewriter =
     tryPatterns NDEBUG getElementPtr (candidates patterns op) op operands rewriter"

text \<open>
  Applying the rule set to a fragment: to each operation, with its converted
  operands, in order; the rewriter collects what the rules did.
\<close>

fun applyToFragment ::
    "bool \<Rightarrow> ElementPtr \<Rightarrow> RewritePatternSet \<Rightarrow> (Operation \<times> Value list) list
       \<Rightarrow> ConversionPatternRewriter \<Rightarrow> error + ConversionPatternRewriter" where
  "applyToFragment NDEBUG getElementPtr patterns [] rewriter = Inr rewriter"
| "applyToFragment NDEBUG getElementPtr patterns ((op, operands) # rest) rewriter =
     (case applyPatterns NDEBUG getElementPtr patterns op operands rewriter of
        Inl e \<Rightarrow> Inl e
      | Inr (result, rewriter') \<Rightarrow>
          applyToFragment NDEBUG getElementPtr patterns rest rewriter')"

section \<open>The documented mapping and example values\<close>

text \<open>
  Following the spec's words, not the source: the elementwise default rule
  "map[s] the sub-kind to the corresponding target binary/unary arithmetic
  operation one-to-one (e.g. float-add \<rightarrow> target float-add)", for the
  supported sub-kinds float-add, integer-add, float-subtract,
  integer-subtract, float-divide, signed-divide, unsigned-divide,
  float-negate, signed-negate and float-width-extension; no other sub-kind has
  a target operation.
\<close>

fun documentedTargetOp ::
    "MMAElementwiseOp \<Rightarrow> (Type \<Rightarrow> Value list \<Rightarrow> Operation) option" where
  "documentedTargetOp ADDF = Some SPIRV_FAdd"
| "documentedTargetOp ADDI = Some SPIRV_IAdd"
| "documentedTargetOp SUBF = Some SPIRV_FSub"
| "documentedTargetOp SUBI = Some SPIRV_ISub"
| "documentedTargetOp DIVF = Some SPIRV_FDiv"
| "documentedTargetOp DIVS = Some SPIRV_SDiv"
| "documentedTargetOp DIVU = Some SPIRV_UDiv"
| "documentedTargetOp NEGATEF = Some SPIRV_FNegate"
| "documentedTargetOp NEGATES = Some SPIRV_SNegate"
| "documentedTargetOp EXTF = Some SPIRV_FConvert"
| "documentedTargetOp _ = None"

text \<open>
  An address computation to run the load and store rules with: one
  \<^verbatim>\<open>spirv.AccessChain\<close> on the converted base pointer and indices, of pointer
  type to the element type of the memref.
\<close>

definition accessChainElementPtr :: ElementPtr where
  "accessChainElementPtr memrefType basePtr indices rewriter =
     (case memrefType of
        MemRefType shape elementType \<Rightarrow>
          (case create rewriter
                  (OtherOp ''spirv.AccessChain'' (basePtr # indices)
                     (PointerType elementType)) of
             (accessChain, rewriter') \<Rightarrow> (OpResult accessChain, rewriter')))"

text \<open>
  Values of a 16 by 16 fragment of 32-bit floats: the abstract and the
  cooperative matrix type; a scalar \<open>k\<close>, its splat by a constant-matrix
  operation and the construct-from-scalar that splat is lowered to; a matrix
  \<open>M\<close> and a second matrix \<open>N\<close> that no constant-matrix operation produces,
  before and after lowering; a 32 by 32 buffer, its converted pointer and
  two indices.
\<close>

definition matrixF32 :: Type where
  "matrixF32 = MMAMatrix (MMAMatrixType [16, 16] (FloatType 32) ''COp'')"

definition coopF32 :: Type where
  "coopF32 = CooperativeMatrixNV (CooperativeMatrixNVType (FloatType 32) Subgroup 16 16)"

definition scalarK :: Value where
  "scalarK = BlockArgument (FloatType 32) 0"

definition splatK :: Value where
  "splatK = OpResult (GPU_SubgroupMmaConstantMatrix
     (SubgroupMmaConstantMatrixOp scalarK matrixF32))"

definition loweredSplatK :: Value where
  "loweredSplatK = OpResult (SPIRV_CompositeConstruct
     (CompositeConstructOp coopF32 [scalarK]))"

definition matrixM :: Value where
  "matrixM = BlockArgument matrixF32 1"

definition loweredM :: Value where
  "loweredM = BlockArgument coopF32 1"

definition matrixN :: Value where
  "matrixN = BlockArgument matrixF32 2"

definition loweredN :: Value where
  "loweredN = BlockArgument coopF32 2"

definition buffer :: Value where
  "buffer = BlockArgument (MemRef (MemRefType [32, 32] (FloatType 32))) 3"

definition loweredBuffer :: Value where
  "loweredBuffer = BlockArgument (PointerType (FloatType 32)) 3"

definition indexI :: Value where
  "indexI = BlockArgument IndexType 4"

definition loweredI :: Value where
  "loweredI = BlockArgument (IntegerType 32) 4"

section \<open>Properties\<close>

subsection \<open>Auxiliary facts\<close>

lemma replaceOpWithNewOp_log:
  "replaceOpWithNewOp rewriter op newOp =
     rewriter @ [Create newOp, Replace op (getResults newOp)]"
  by (simp add: replaceOpWithNewOp_def create_def replaceOp_def)

lemma convert_wellformed:
  "convertMMAToSPIRVCoopMatrixNVType (MMAMatrixType [rows, cols] E operand) =
     Inr (CooperativeMatrixNVType E Subgroup (rows mod 2 ^ 32) (cols mod 2 ^ 32))"
  by (simp add: convertMMAToSPIRVCoopMatrixNVType_def CooperativeMatrixNVType_get_def)

lemma allCooperativeMatrixNV_iff:
  "allCooperativeMatrixNV operands \<longleftrightarrow>
     (\<forall>operand \<in> set operands. isa_CooperativeMatrixNVType (getType operand))"
  by (induction operands) auto

text \<open>The low 32 bits of a 64-bit value are those of its signed reading.\<close>

lemma uint_mod_eq_sint_mod:
  "uint (w :: 64 word) mod 2 ^ 32 = sint w mod 2 ^ 32"
proof -
  have "uint w mod 2 ^ 32 = take_bit 32 (take_bit 64 (sint w))"
    by (simp add: take_bit_eq_mod uint_sint)
  also have "\<dots> = take_bit 32 (sint w)"
    by (simp add: take_bit_take_bit)
  finally show ?thesis
    by (simp add: take_bit_eq_mod)
qed

lemma IntegerAttr_get_i32:
  "IntegerAttr_get (IntegerType 32) w =
     Inr (IntegerAttr (IntegerType 32) (sint w mod 2 ^ 32))"
  by (simp only: IntegerAttr_get.simps uint_mod_eq_sint_mod)

lemma createElementwiseOp_cases:
  "createElementwiseOp rewriter op coopType operands = (created, rewriter') \<Longrightarrow>
     (\<not> created \<and> rewriter' = rewriter) \<or>
     (created \<and> (\<exists>new. rewriter' =
         rewriter @ [Create new, Replace (GPU_SubgroupMmaElementwise op) [OpResult new]]))"
  by (cases "Elementwise_getOpType op") (auto simp: replaceOpWithNewOp_log)

lemma load_never_declines:
  "WmmaLoadOpToSPIRVLowering_matchAndRewrite getElementPtr loadOp loadAdaptor rewriter \<noteq>
     Inr (failure, rewriter')"
  by (auto simp: WmmaLoadOpToSPIRVLowering_matchAndRewrite_def Let_def
      split: sum.splits prod.splits)

lemma store_never_declines:
  "WmmaStoreOpToSPIRVLowering_matchAndRewrite getElementPtr storeOp storeAdaptor rewriter \<noteq>
     Inr (failure, rewriter')"
  by (auto simp: WmmaStoreOpToSPIRVLowering_matchAndRewrite_def Let_def
      split: sum.splits prod.splits)

lemma mma_never_declines:
  "WmmaMmaOpToSPIRVLowering_matchAndRewrite computeOp computeAdaptor rewriter \<noteq>
     Inr (failure, rewriter')"
  by (simp add: WmmaMmaOpToSPIRVLowering_matchAndRewrite_def)

lemma constant_never_declines:
  "WmmaConstantOpToSPIRVLowering_matchAndRewrite constantOp constantAdaptor rewriter \<noteq>
     Inr (failure, rewriter')"
  by (auto simp: WmmaConstantOpToSPIRVLowering_matchAndRewrite_def
      split: sum.splits)

lemma default_outcome:
  "WmmaElementwiseOpToSPIRVDefaultLowering_matchAndRewrite op adaptor rewriter =
     Inr (result, rewriter') \<Longrightarrow>
   (result = failure \<and> rewriter' = rewriter) \<or>
   (result = success \<and> (\<exists>new. rewriter' =
       rewriter @ [Create new, Replace (GPU_SubgroupMmaElementwise op) [OpResult new]]))"
  by (auto simp add: WmmaElementwiseOpToSPIRVDefaultLowering_matchAndRewrite_def
      success_if_def
      simp del: createElementwiseOp.simps
      split: sum.splits prod.splits if_splits dest: createElementwiseOp_cases)

lemma scalarMul_outcome:
  "WmmaElementwiseOpToSPIRVScalarMulLowering_matchAndRewrite NDEBUG op adaptor rewriter =
     Inr (result, rewriter') \<Longrightarrow>
   (result = failure \<and> rewriter' = rewriter) \<or>
   (result = success \<and> (\<exists>new. rewriter' =
       rewriter @ [Create new, Replace (GPU_SubgroupMmaElementwise op) [OpResult new]]))"
  by (auto simp: WmmaElementwiseOpToSPIRVScalarMulLowering_matchAndRewrite_def
      replaceOpWithNewOp_log
      split: sum.splits prod.splits if_splits list.splits option.splits)

lemma no_candidates:
  assumes "getDialectNamespace (getName op) = ''spirv''"
  shows "candidates (populateGpuWMMAToSPIRVCoopMatrixNVConversionPatterns []) op = []"
proof -
  have "rootKind pattern \<noteq> getName op" for pattern
  proof
    assume "rootKind pattern = getName op"
    with assms have "getDialectNamespace (rootKind pattern) = ''spirv''"
      by simp
    then show False
      by (cases pattern) (simp_all add: getDialectNamespace_def)
  qed
  then show ?thesis
    by (simp add: candidates_def)
qed

lemma fragment_untouched:
  "(\<forall>entry \<in> set fragment. getDialectNamespace (getName (fst entry)) = ''spirv'') \<Longrightarrow>
     applyToFragment NDEBUG getElementPtr (populateGpuWMMAToSPIRVCoopMatrixNVConversionPatterns [])
       fragment rewriter = Inr rewriter"
  by (induction fragment) (auto simp: applyPatterns_def no_candidates)

lemmas example_values =
  matrixF32_def coopF32_def scalarK_def splatK_def loweredSplatK_def matrixM_def
  loweredM_def matrixN_def loweredN_def buffer_def loweredBuffer_def indexI_def
  loweredI_def

subsection \<open>The scalar-multiply fusion rule\<close>

text \<open>
  C1: for a float-multiply \<open>op\<close> with the two original operands \<open>lhs\<close> and
  \<open>rhs\<close>, both converted operands of cooperative matrix type, exactly one
  original operand produced by a constant-matrix operation and the converted
  form of that operand a construct-from-scalar of \<open>scalar\<close>, the rule succeeds
  and emits one matrix-times-scalar operation with the operands (converted
  matrix operand, \<open>scalar\<close>), whether the constant-matrix operand is the left
  one (first part) or the right one (second part), and replaces \<open>op\<close> by its
  result. When no original operand is produced by a constant-matrix
  operation, the rule declines and the rewriter is as it was (third part; the
  adaptor holds one converted operand for each original operand).
\<close>

theorem scalarMul_fusion:
  "(op = SubgroupMmaElementwiseOp [lhs, rhs] MULF
           (MMAMatrix (MMAMatrixType [rows, cols] E operand)) \<and>
    isa_CooperativeMatrixNVType (getType matrix) \<and>
    isa_CooperativeMatrixNVType t \<and>
    getDefiningOp_SubgroupMmaConstantMatrixOp lhs \<noteq> None \<and>
    getDefiningOp_SubgroupMmaConstantMatrixOp rhs = None
    \<longrightarrow>
    WmmaElementwiseOpToSPIRVScalarMulLowering_matchAndRewrite NDEBUG op
        (SubgroupMmaElementwiseOpAdaptor
           [OpResult (SPIRV_CompositeConstruct (CompositeConstructOp t [scalar])), matrix])
        rewriter =
      Inr (success,
           rewriter @
             [Create (SPIRV_MatrixTimesScalar
                (CooperativeMatrixNV (CooperativeMatrixNVType E Subgroup (rows mod 2 ^ 32) (cols mod 2 ^ 32)))
                [matrix, scalar]),
              Replace (GPU_SubgroupMmaElementwise op)
                [OpResult (SPIRV_MatrixTimesScalar
                   (CooperativeMatrixNV (CooperativeMatrixNVType E Subgroup (rows mod 2 ^ 32) (cols mod 2 ^ 32)))
                   [matrix, scalar])]]))
   \<and>
   (op = SubgroupMmaElementwiseOp [lhs, rhs] MULF
           (MMAMatrix (MMAMatrixType [rows, cols] E operand)) \<and>
    isa_CooperativeMatrixNVType (getType matrix) \<and>
    isa_CooperativeMatrixNVType t \<and>
    getDefiningOp_SubgroupMmaConstantMatrixOp lhs = None \<and>
    getDefiningOp_SubgroupMmaConstantMatrixOp rhs \<noteq> None
    \<longrightarrow>
    WmmaElementwiseOpToSPIRVScalarMulLowering_matchAndRewrite NDEBUG op
        (SubgroupMmaElementwiseOpAdaptor
           [matrix, OpResult (SPIRV_CompositeConstruct (CompositeConstructOp t [scalar]))])
        rewriter =
      Inr (success,
           rewriter @
             [Create (SPIRV_MatrixTimesScalar
                (CooperativeMatrixNV (CooperativeMatrixNVType E Subgroup (rows mod 2 ^ 32) (cols mod 2 ^ 32)))
                [matrix, scalar]),
              Replace (GPU_SubgroupMmaElementwise op)
                [OpResult (SPIRV_MatrixTimesScalar
                   (CooperativeMatrixNV (CooperativeMatrixNVType E Subgroup (rows mod 2 ^ 32) (cols mod 2 ^ 32)))
                   [matrix, scalar])]]))
   \<and>
   (length (ElementwiseAdaptor_getOperands adaptor) =
      length (Elementwise_getOperands anyOp) \<and>
    (\<forall>operand \<in> set (Elementwise_getOperands anyOp).
        getDefiningOp_SubgroupMmaConstantMatrixOp operand = None)
    \<longrightarrow>
    WmmaElementwiseOpToSPIRVScalarMulLowering_matchAndRewrite NDEBUG anyOp adaptor rewriter =
      Inr (failure, rewriter))"
proof (intro conjI impI)
  assume "op = SubgroupMmaElementwiseOp [lhs, rhs] MULF
           (MMAMatrix (MMAMatrixType [rows, cols] E operand)) \<and>
    isa_CooperativeMatrixNVType (getType matrix) \<and>
    isa_CooperativeMatrixNVType t \<and>
    getDefiningOp_SubgroupMmaConstantMatrixOp lhs \<noteq> None \<and>
    getDefiningOp_SubgroupMmaConstantMatrixOp rhs = None"
  then show "WmmaElementwiseOpToSPIRVScalarMulLowering_matchAndRewrite NDEBUG op
        (SubgroupMmaElementwiseOpAdaptor
           [OpResult (SPIRV_CompositeConstruct (CompositeConstructOp t [scalar])), matrix])
        rewriter =
      Inr (success,
           rewriter @
             [Create (SPIRV_MatrixTimesScalar
                (CooperativeMatrixNV (CooperativeMatrixNVType E Subgroup (rows mod 2 ^ 32) (cols mod 2 ^ 32)))
                [matrix, scalar]),
              Replace (GPU_SubgroupMmaElementwise op)
                [OpResult (SPIRV_MatrixTimesScalar
                   (CooperativeMatrixNV (CooperativeMatrixNVType E Subgroup (rows mod 2 ^ 32) (cols mod 2 ^ 32)))
                   [matrix, scalar])]])"
    by (simp add: WmmaElementwiseOpToSPIRVScalarMulLowering_matchAndRewrite_def
        convert_wellformed replaceOpWithNewOp_log)
next
  assume "op = SubgroupMmaElementwiseOp [lhs, rhs] MULF
           (MMAMatrix (MMAMatrixType [rows, cols] E operand)) \<and>
    isa_CooperativeMatrixNVType (getType matrix) \<and>
    isa_CooperativeMatrixNVType t \<and>
    getDefiningOp_SubgroupMmaConstantMatrixOp lhs = None \<and>
    getDefiningOp_SubgroupMmaConstantMatrixOp rhs \<noteq> None"
  then show "WmmaElementwiseOpToSPIRVScalarMulLowering_matchAndRewrite NDEBUG op
        (SubgroupMmaElementwiseOpAdaptor
           [matrix, OpResult (SPIRV_CompositeConstruct (CompositeConstructOp t [scalar]))])
        rewriter =
      Inr (success,
           rewriter @
             [Create (SPIRV_MatrixTimesScalar
                (CooperativeMatrixNV (CooperativeMatrixNVType E Subgroup (rows mod 2 ^ 32) (cols mod 2 ^ 32)))
                [matrix, scalar]),
              Replace (GPU_SubgroupMmaElementwise op)
                [OpResult (SPIRV_MatrixTimesScalar
                   (CooperativeMatrixNV (CooperativeMatrixNVType E Subgroup (rows mod 2 ^ 32) (cols mod 2 ^ 32)))
                   [matrix, scalar])]])"
    by (simp add: WmmaElementwiseOpToSPIRVScalarMulLowering_matchAndRewrite_def
        convert_wellformed replaceOpWithNewOp_log)
next
  assume h: "length (ElementwiseAdaptor_getOperands adaptor) =
      length (Elementwise_getOperands anyOp) \<and>
    (\<forall>operand \<in> set (Elementwise_getOperands anyOp).
        getDefiningOp_SubgroupMmaConstantMatrixOp operand = None)"
  show "WmmaElementwiseOpToSPIRVScalarMulLowering_matchAndRewrite NDEBUG anyOp adaptor rewriter =
      Inr (failure, rewriter)"
  proof (cases "ElementwiseAdaptor_getOperands adaptor")
    case Nil
    then show ?thesis
      by (simp add: WmmaElementwiseOpToSPIRVScalarMulLowering_matchAndRewrite_def)
  next
    case (Cons a as)
    note outer = Cons
    show ?thesis
    proof (cases as)
      case Nil
      with outer show ?thesis
        by (simp add: WmmaElementwiseOpToSPIRVScalarMulLowering_matchAndRewrite_def)
    next
      case (Cons b bs)
      note inner = Cons
      show ?thesis
      proof (cases bs)
        case Nil
        with outer inner h obtain lhs' rhs'
          where ops: "Elementwise_getOperands anyOp = [lhs', rhs']"
          by (cases "Elementwise_getOperands anyOp"; simp)
             (metis length_0_conv length_Suc_conv)
        with h have "getDefiningOp_SubgroupMmaConstantMatrixOp lhs' = None"
          "getDefiningOp_SubgroupMmaConstantMatrixOp rhs' = None"
          by simp_all
        with outer inner Nil ops show ?thesis
          by (simp add: WmmaElementwiseOpToSPIRVScalarMulLowering_matchAndRewrite_def)
      next
        case (Cons c cs)
        with outer inner show ?thesis
          by (simp add: WmmaElementwiseOpToSPIRVScalarMulLowering_matchAndRewrite_def)
      qed
    qed
  qed
qed

theorem scalarMul_fusion_witness:
  "WmmaElementwiseOpToSPIRVScalarMulLowering_matchAndRewrite False
       (SubgroupMmaElementwiseOp [splatK, matrixM] MULF matrixF32)
       (SubgroupMmaElementwiseOpAdaptor [loweredSplatK, loweredM]) [] =
     Inr (success,
          [Create (SPIRV_MatrixTimesScalar coopF32 [loweredM, scalarK]),
           Replace (GPU_SubgroupMmaElementwise
                      (SubgroupMmaElementwiseOp [splatK, matrixM] MULF matrixF32))
             [OpResult (SPIRV_MatrixTimesScalar coopF32 [loweredM, scalarK])]])
 \<and> WmmaElementwiseOpToSPIRVScalarMulLowering_matchAndRewrite False
       (SubgroupMmaElementwiseOp [matrixM, splatK] MULF matrixF32)
       (SubgroupMmaElementwiseOpAdaptor [loweredM, loweredSplatK]) [] =
     Inr (success,
          [Create (SPIRV_MatrixTimesScalar coopF32 [loweredM, scalarK]),
           Replace (GPU_SubgroupMmaElementwise
                      (SubgroupMmaElementwiseOp [matrixM, splatK] MULF matrixF32))
             [OpResult (SPIRV_MatrixTimesScalar coopF32 [loweredM, scalarK])]])
 \<and> WmmaElementwiseOpToSPIRVScalarMulLowering_matchAndRewrite False
       (SubgroupMmaElementwiseOp [matrixM, matrixN] MULF matrixF32)
       (SubgroupMmaElementwiseOpAdaptor [loweredM, loweredN]) [] =
     Inr (failure, [])"
  using
    scalarMul_fusion [where NDEBUG = False and op = "SubgroupMmaElementwiseOp [splatK, matrixM] MULF matrixF32"
      and lhs = splatK and rhs = matrixM and rows = 16 and cols = 16
      and E = "FloatType 32" and operand = "''COp''" and matrix = loweredM
      and t = coopF32 and scalar = scalarK and rewriter = "[]"
      and anyOp = "SubgroupMmaElementwiseOp [matrixM, matrixN] MULF matrixF32"
      and adaptor = "SubgroupMmaElementwiseOpAdaptor [loweredM, loweredN]"]
    scalarMul_fusion [where NDEBUG = False and op = "SubgroupMmaElementwiseOp [matrixM, splatK] MULF matrixF32"
      and lhs = matrixM and rhs = splatK and rows = 16 and cols = 16
      and E = "FloatType 32" and operand = "''COp''" and matrix = loweredM
      and t = coopF32 and scalar = scalarK and rewriter = "[]"
      and anyOp = "SubgroupMmaElementwiseOp [matrixM, matrixN] MULF matrixF32"
      and adaptor = "SubgroupMmaElementwiseOpAdaptor [loweredM, loweredN]"]
  by (simp add: example_values)

text \<open>
  C10: when both original operands of the float-multiply are produced by
  constant-matrix operations (both converted operands of cooperative matrix
  type, the converted left operand a construct-from-scalar of \<open>scalar\<close>), the
  left operand is the splat and the right one the matrix: the rule emits
  matrix-times-scalar with the operands (converted right operand, \<open>scalar\<close>).
\<close>

theorem scalarMul_both_constant:
  assumes "op = SubgroupMmaElementwiseOp [lhs, rhs] MULF
                  (MMAMatrix (MMAMatrixType [rows, cols] E operand))"
    and "getDefiningOp_SubgroupMmaConstantMatrixOp lhs \<noteq> None"
    and "getDefiningOp_SubgroupMmaConstantMatrixOp rhs \<noteq> None"
    and "isa_CooperativeMatrixNVType t"
    and "isa_CooperativeMatrixNVType (getType loweredRhs)"
  shows "WmmaElementwiseOpToSPIRVScalarMulLowering_matchAndRewrite NDEBUG op
           (SubgroupMmaElementwiseOpAdaptor
              [OpResult (SPIRV_CompositeConstruct (CompositeConstructOp t [scalar])),
               loweredRhs])
           rewriter =
         Inr (success,
              rewriter @
                [Create (SPIRV_MatrixTimesScalar
                   (CooperativeMatrixNV (CooperativeMatrixNVType E Subgroup (rows mod 2 ^ 32) (cols mod 2 ^ 32)))
                   [loweredRhs, scalar]),
                 Replace (GPU_SubgroupMmaElementwise op)
                   [OpResult (SPIRV_MatrixTimesScalar
                      (CooperativeMatrixNV (CooperativeMatrixNVType E Subgroup (rows mod 2 ^ 32) (cols mod 2 ^ 32)))
                      [loweredRhs, scalar])]])"
  using assms
  by (simp add: WmmaElementwiseOpToSPIRVScalarMulLowering_matchAndRewrite_def
      convert_wellformed replaceOpWithNewOp_log)

theorem scalarMul_both_constant_witness:
  "WmmaElementwiseOpToSPIRVScalarMulLowering_matchAndRewrite False
       (SubgroupMmaElementwiseOp
          [splatK,
           OpResult (GPU_SubgroupMmaConstantMatrix
             (SubgroupMmaConstantMatrixOp (BlockArgument (FloatType 32) 5) matrixF32))]
          MULF matrixF32)
       (SubgroupMmaElementwiseOpAdaptor
          [loweredSplatK,
           OpResult (SPIRV_CompositeConstruct
             (CompositeConstructOp coopF32 [BlockArgument (FloatType 32) 5]))]) [] =
     Inr (success,
          [Create (SPIRV_MatrixTimesScalar coopF32
             [OpResult (SPIRV_CompositeConstruct
                (CompositeConstructOp coopF32 [BlockArgument (FloatType 32) 5])),
              scalarK]),
           Replace (GPU_SubgroupMmaElementwise
                      (SubgroupMmaElementwiseOp
                         [splatK,
                          OpResult (GPU_SubgroupMmaConstantMatrix
                            (SubgroupMmaConstantMatrixOp (BlockArgument (FloatType 32) 5)
                               matrixF32))]
                         MULF matrixF32))
             [OpResult (SPIRV_MatrixTimesScalar coopF32
                [OpResult (SPIRV_CompositeConstruct
                   (CompositeConstructOp coopF32 [BlockArgument (FloatType 32) 5])),
                 scalarK])]])"
  using
    scalarMul_both_constant [where NDEBUG = False and op = "SubgroupMmaElementwiseOp
          [splatK,
           OpResult (GPU_SubgroupMmaConstantMatrix
             (SubgroupMmaConstantMatrixOp (BlockArgument (FloatType 32) 5) matrixF32))]
          MULF matrixF32"
      and lhs = splatK
      and rhs = "OpResult (GPU_SubgroupMmaConstantMatrix
             (SubgroupMmaConstantMatrixOp (BlockArgument (FloatType 32) 5) matrixF32))"
      and rows = 16 and cols = 16 and E = "FloatType 32" and operand = "''COp''"
      and t = coopF32 and scalar = scalarK and rewriter = "[]"
      and loweredRhs = "OpResult (SPIRV_CompositeConstruct
             (CompositeConstructOp coopF32 [BlockArgument (FloatType 32) 5]))"]
  by (simp add: example_values)



subsection \<open>The elementwise default rule\<close>

text \<open>
  C3: for an elementwise operation of sub-kind \<open>kind\<close> (its result of an
  abstract matrix type of shape \<open>(rows, cols)\<close>) and the converted operands
  \<open>operands\<close>, the default rule succeeds exactly when every converted operand
  is of cooperative matrix type and \<open>kind\<close> has a documented target operation,
  which is so exactly for the ten supported sub-kinds. On success the rewriter
  has, after what it had, that one target operation, of the translated type
  and on the converted operands, and the replacement of the operation by its
  result; otherwise the rule declines and the rewriter is as it was.
\<close>

theorem elementwise_default:
  "WmmaElementwiseOpToSPIRVDefaultLowering_matchAndRewrite
       (SubgroupMmaElementwiseOp originalOperands kind
          (MMAMatrix (MMAMatrixType [rows, cols] E operand)))
       (SubgroupMmaElementwiseOpAdaptor operands) rewriter =
     (case (if \<forall>operand \<in> set operands. isa_CooperativeMatrixNVType (getType operand)
            then documentedTargetOp kind else None) of
        Some build \<Rightarrow>
          (let new = build (CooperativeMatrixNV (CooperativeMatrixNVType E Subgroup (rows mod 2 ^ 32) (cols mod 2 ^ 32)))
                       operands
           in Inr (success,
                   rewriter @
                     [Create new,
                      Replace (GPU_SubgroupMmaElementwise
                                 (SubgroupMmaElementwiseOp originalOperands kind
                                    (MMAMatrix (MMAMatrixType [rows, cols] E operand))))
                        [OpResult new]]))
      | None \<Rightarrow> Inr (failure, rewriter))
   \<and> (documentedTargetOp kind \<noteq> None \<longleftrightarrow>
        kind \<in> {ADDF, ADDI, SUBF, SUBI, DIVF, DIVS, DIVU, NEGATEF, NEGATES, EXTF})"
  by (cases kind)
    (simp_all add: WmmaElementwiseOpToSPIRVDefaultLowering_matchAndRewrite_def
      allCooperativeMatrixNV_iff convert_wellformed replaceOpWithNewOp_log success_if_def
      Let_def)

text \<open>
  The witness: a float-add of two lowered matrices; a float-add one operand of
  which is still of the abstract matrix type; a float-multiply, which is not
  supported.
\<close>

theorem elementwise_default_witness:
  "WmmaElementwiseOpToSPIRVDefaultLowering_matchAndRewrite
       (SubgroupMmaElementwiseOp [matrixM, matrixN] ADDF matrixF32)
       (SubgroupMmaElementwiseOpAdaptor [loweredM, loweredN]) [] =
     Inr (success,
          [Create (SPIRV_FAdd coopF32 [loweredM, loweredN]),
           Replace (GPU_SubgroupMmaElementwise
                      (SubgroupMmaElementwiseOp [matrixM, matrixN] ADDF matrixF32))
             [OpResult (SPIRV_FAdd coopF32 [loweredM, loweredN])]])
 \<and> WmmaElementwiseOpToSPIRVDefaultLowering_matchAndRewrite
       (SubgroupMmaElementwiseOp [matrixM, matrixN] ADDF matrixF32)
       (SubgroupMmaElementwiseOpAdaptor [loweredM, matrixN]) [] =
     Inr (failure, [])
 \<and> WmmaElementwiseOpToSPIRVDefaultLowering_matchAndRewrite
       (SubgroupMmaElementwiseOp [matrixM, matrixN] MULF matrixF32)
       (SubgroupMmaElementwiseOpAdaptor [loweredM, loweredN]) [] =
     Inr (failure, [])"
  using
    elementwise_default [where originalOperands = "[matrixM, matrixN]" and kind = ADDF
      and rows = 16 and cols = 16 and E = "FloatType 32" and operand = "''COp''"
      and operands = "[loweredM, loweredN]" and rewriter = "[]"]
    elementwise_default [where originalOperands = "[matrixM, matrixN]" and kind = ADDF
      and rows = 16 and cols = 16 and E = "FloatType 32" and operand = "''COp''"
      and operands = "[loweredM, matrixN]" and rewriter = "[]"]
    elementwise_default [where originalOperands = "[matrixM, matrixN]" and kind = MULF
      and rows = 16 and cols = 16 and E = "FloatType 32" and operand = "''COp''"
      and operands = "[loweredM, loweredN]" and rewriter = "[]"]
  by (simp add: example_values Let_def)

subsection \<open>The type translator\<close>

text \<open>
  C5, as amended: for every abstract matrix type with element type \<open>E\<close> and
  shape \<open>(rows, cols)\<close> the type translator does not fail and returns the
  cooperative matrix type with element type \<open>E\<close>, scope subgroup, and rows
  and columns \<open>rows\<close> and \<open>cols\<close> modulo \<open>2\<^sup>3\<^sup>2\<close>: the same rows and columns
  when \<open>0 \<le> rows < 2\<^sup>3\<^sup>2\<close> and \<open>0 \<le> cols < 2\<^sup>3\<^sup>2\<close>. (Being a function of its
  argument alone, it returns the same type for the same input.)
\<close>

theorem convertMMAToSPIRVCoopMatrixNVType_total:
  "convertMMAToSPIRVCoopMatrixNVType (MMAMatrixType [rows, cols] E operand) =
     Inr (CooperativeMatrixNVType E Subgroup (rows mod 2 ^ 32) (cols mod 2 ^ 32))
 \<and> (0 \<le> rows \<and> rows < 2 ^ 32 \<and> 0 \<le> cols \<and> cols < 2 ^ 32 \<longrightarrow>
      convertMMAToSPIRVCoopMatrixNVType (MMAMatrixType [rows, cols] E operand) =
        Inr (CooperativeMatrixNVType E Subgroup rows cols))"
  by (simp add: convertMMAToSPIRVCoopMatrixNVType_def CooperativeMatrixNVType_get_def)

text \<open>The witness: the 16 by 16 matrix of 32-bit floats.\<close>

theorem convertMMAToSPIRVCoopMatrixNVType_total_witness:
  "convertMMAToSPIRVCoopMatrixNVType (MMAMatrixType [16, 16] (FloatType 32) ''COp'') =
     Inr (CooperativeMatrixNVType (FloatType 32) Subgroup 16 16)"
  using convertMMAToSPIRVCoopMatrixNVType_total [where rows = 16 and cols = 16
      and E = "FloatType 32" and operand = "''COp''"]
  by simp

text \<open>
  The claim as stated fails for a row count that does not fit 32 bits: the
  shape \<open>(2\<^sup>3\<^sup>2 + 16, 16)\<close> is translated to a 16 by 16 cooperative matrix
  type.
\<close>

theorem convertMMAToSPIRVCoopMatrixNVType_counterexample:
  "convertMMAToSPIRVCoopMatrixNVType
       (MMAMatrixType [4294967312, 16] (FloatType 32) ''COp'') =
     Inr (CooperativeMatrixNVType (FloatType 32) Subgroup 16 16)
 \<and> CooperativeMatrixNVType (FloatType 32) Subgroup 16 16 \<noteq>
     CooperativeMatrixNVType (FloatType 32) Subgroup 4294967312 16"
  by (simp add: convertMMAToSPIRVCoopMatrixNVType_def CooperativeMatrixNVType_get_def)

subsection \<open>The load and store rules\<close>

text \<open>
  C2, as amended: for every matrix load with leading dimension \<open>S\<close> and
  transpose flag \<open>T\<close> (its result of an abstract matrix type of shape
  \<open>(rows, cols)\<close>, its source a memref), and every matrix store with \<open>S'\<close>
  and \<open>T'\<close> (its destination a memref), whatever the address computation
  does, the rule succeeds, and after the address computation the rewriter has
  the stride constant, the column-major constant, the target load (store) on
  the address and these two constants, and the replacement of the operation.
  The column-major constant is the boolean \<open>T\<close>. The stride constant is the
  32-bit integer constant of value \<open>S\<close> modulo \<open>2\<^sup>3\<^sup>2\<close> in its unsigned
  reading, which is \<open>S\<close> when \<open>0 \<le> S < 2\<^sup>3\<^sup>2\<close>.
\<close>

theorem load_store_constants:
  assumes "getType srcMemref = MemRef loadMemref"
    and "getType dstMemref = MemRef storeMemref"
  shows
    "WmmaLoadOpToSPIRVLowering_matchAndRewrite getElementPtr
         (SubgroupMmaLoadMatrixOp srcMemref indices S T
            (MMAMatrix (MMAMatrixType [rows, cols] E operand)))
         loadAdaptor rewriter =
       (case getElementPtr loadMemref (LoadAdaptor_getSrcMemref loadAdaptor)
               (LoadAdaptor_getIndices loadAdaptor) rewriter of
          (bufferPtr, rewriter1) \<Rightarrow>
            (let strideValue = SPIRV_Constant (IntegerType 32)
                   (IntegerAttr (IntegerType 32) (sint S mod 2 ^ 32));
                 columnMajor = SPIRV_Constant (IntegerType 1) (BoolAttr T);
                 load = SPIRV_NVCooperativeMatrixLoad
                   (CooperativeMatrixNV (CooperativeMatrixNVType E Subgroup (rows mod 2 ^ 32) (cols mod 2 ^ 32)))
                   bufferPtr (OpResult strideValue) (OpResult columnMajor) None
             in Inr (success,
                     rewriter1 @
                       [Create strideValue, Create columnMajor, Create load,
                        Replace (GPU_SubgroupMmaLoadMatrix
                                   (SubgroupMmaLoadMatrixOp srcMemref indices S T
                                      (MMAMatrix (MMAMatrixType [rows, cols] E operand))))
                          [OpResult load]])))
     \<and> WmmaStoreOpToSPIRVLowering_matchAndRewrite getElementPtr
         (SubgroupMmaStoreMatrixOp src dstMemref indices' S' T') storeAdaptor rewriter' =
       (case getElementPtr storeMemref (StoreAdaptor_getDstMemref storeAdaptor)
               (StoreAdaptor_getIndices storeAdaptor) rewriter' of
          (bufferPtr, rewriter1) \<Rightarrow>
            (let strideValue = SPIRV_Constant (IntegerType 32)
                   (IntegerAttr (IntegerType 32) (sint S' mod 2 ^ 32));
                 columnMajor = SPIRV_Constant (IntegerType 1) (BoolAttr T');
                 store = SPIRV_NVCooperativeMatrixStore bufferPtr
                   (StoreAdaptor_getSrc storeAdaptor) (OpResult strideValue)
                   (OpResult columnMajor) None
             in Inr (success,
                     rewriter1 @
                       [Create strideValue, Create columnMajor, Create store,
                        Replace (GPU_SubgroupMmaStoreMatrix
                                   (SubgroupMmaStoreMatrixOp src dstMemref indices' S' T'))
                          []])))
     \<and> (0 \<le> sint S \<and> sint S < 2 ^ 32 \<longrightarrow> sint S mod 2 ^ 32 = sint S)
     \<and> (0 \<le> sint S' \<and> sint S' < 2 ^ 32 \<longrightarrow> sint S' mod 2 ^ 32 = sint S')"
proof -
  have load: "WmmaLoadOpToSPIRVLowering_matchAndRewrite getElementPtr
         (SubgroupMmaLoadMatrixOp srcMemref indices S T
            (MMAMatrix (MMAMatrixType [rows, cols] E operand)))
         loadAdaptor rewriter =
       (case getElementPtr loadMemref (LoadAdaptor_getSrcMemref loadAdaptor)
               (LoadAdaptor_getIndices loadAdaptor) rewriter of
          (bufferPtr, rewriter1) \<Rightarrow>
            (let strideValue = SPIRV_Constant (IntegerType 32)
                   (IntegerAttr (IntegerType 32) (sint S mod 2 ^ 32));
                 columnMajor = SPIRV_Constant (IntegerType 1) (BoolAttr T);
                 load = SPIRV_NVCooperativeMatrixLoad
                   (CooperativeMatrixNV (CooperativeMatrixNVType E Subgroup (rows mod 2 ^ 32) (cols mod 2 ^ 32)))
                   bufferPtr (OpResult strideValue) (OpResult columnMajor) None
             in Inr (success,
                     rewriter1 @
                       [Create strideValue, Create columnMajor, Create load,
                        Replace (GPU_SubgroupMmaLoadMatrix
                                   (SubgroupMmaLoadMatrixOp srcMemref indices S T
                                      (MMAMatrix (MMAMatrixType [rows, cols] E operand))))
                          [OpResult load]])))"
    using assms(1)
    by (simp add: WmmaLoadOpToSPIRVLowering_matchAndRewrite_def Load_getRes_def
        convert_wellformed IntegerAttr_get_i32 create_def
        replaceOpWithNewOp_log getI1Type_def getBoolAttr_def getI32Type_def Let_def
        del: IntegerAttr_get.simps split: prod.splits)
  have store: "WmmaStoreOpToSPIRVLowering_matchAndRewrite getElementPtr
         (SubgroupMmaStoreMatrixOp src dstMemref indices' S' T') storeAdaptor rewriter' =
       (case getElementPtr storeMemref (StoreAdaptor_getDstMemref storeAdaptor)
               (StoreAdaptor_getIndices storeAdaptor) rewriter' of
          (bufferPtr, rewriter1) \<Rightarrow>
            (let strideValue = SPIRV_Constant (IntegerType 32)
                   (IntegerAttr (IntegerType 32) (sint S' mod 2 ^ 32));
                 columnMajor = SPIRV_Constant (IntegerType 1) (BoolAttr T');
                 store = SPIRV_NVCooperativeMatrixStore bufferPtr
                   (StoreAdaptor_getSrc storeAdaptor) (OpResult strideValue)
                   (OpResult columnMajor) None
             in Inr (success,
                     rewriter1 @
                       [Create strideValue, Create columnMajor, Create store,
                        Replace (GPU_SubgroupMmaStoreMatrix
                                   (SubgroupMmaStoreMatrixOp src dstMemref indices' S' T'))
                          []])))"
    using assms(2)
    by (simp add: WmmaStoreOpToSPIRVLowering_matchAndRewrite_def
        IntegerAttr_get_i32 create_def
        replaceOpWithNewOp_log getI1Type_def getBoolAttr_def getI32Type_def Let_def
        del: IntegerAttr_get.simps split: prod.splits)
  have range: "0 \<le> sint S \<and> sint S < 2 ^ 32 \<longrightarrow> sint S mod 2 ^ 32 = sint S"
    by simp
  have range': "0 \<le> sint S' \<and> sint S' < 2 ^ 32 \<longrightarrow> sint S' mod 2 ^ 32 = sint S'"
    by simp
  from load store range range' show ?thesis
    by blast
qed

text \<open>
  The witness: the load of a 16 by 16 matrix of 32-bit floats with stride 16,
  not transposed, and a store with stride 1, transposed.
\<close>

theorem load_store_constants_witness:
  "WmmaLoadOpToSPIRVLowering_matchAndRewrite accessChainElementPtr
       (SubgroupMmaLoadMatrixOp buffer [indexI, indexI] 16 False matrixF32)
       (SubgroupMmaLoadMatrixOpAdaptor loweredBuffer [loweredI, loweredI]) [] =
     Inr (success,
          [Create (OtherOp ''spirv.AccessChain'' [loweredBuffer, loweredI, loweredI]
             (PointerType (FloatType 32))),
           Create (SPIRV_Constant (IntegerType 32) (IntegerAttr (IntegerType 32) 16)),
           Create (SPIRV_Constant (IntegerType 1) (BoolAttr False)),
           Create (SPIRV_NVCooperativeMatrixLoad coopF32
             (OpResult (OtherOp ''spirv.AccessChain'' [loweredBuffer, loweredI, loweredI]
                (PointerType (FloatType 32))))
             (OpResult (SPIRV_Constant (IntegerType 32) (IntegerAttr (IntegerType 32) 16)))
             (OpResult (SPIRV_Constant (IntegerType 1) (BoolAttr False))) None),
           Replace (GPU_SubgroupMmaLoadMatrix
                      (SubgroupMmaLoadMatrixOp buffer [indexI, indexI] 16 False matrixF32))
             [OpResult (SPIRV_NVCooperativeMatrixLoad coopF32
                (OpResult (OtherOp ''spirv.AccessChain'' [loweredBuffer, loweredI, loweredI]
                   (PointerType (FloatType 32))))
                (OpResult (SPIRV_Constant (IntegerType 32) (IntegerAttr (IntegerType 32) 16)))
                (OpResult (SPIRV_Constant (IntegerType 1) (BoolAttr False))) None)]])
 \<and> WmmaStoreOpToSPIRVLowering_matchAndRewrite accessChainElementPtr
       (SubgroupMmaStoreMatrixOp matrixM buffer [indexI, indexI] 1 True)
       (SubgroupMmaStoreMatrixOpAdaptor loweredM loweredBuffer [loweredI, loweredI]) [] =
     Inr (success,
          [Create (OtherOp ''spirv.AccessChain'' [loweredBuffer, loweredI, loweredI]
             (PointerType (FloatType 32))),
           Create (SPIRV_Constant (IntegerType 32) (IntegerAttr (IntegerType 32) 1)),
           Create (SPIRV_Constant (IntegerType 1) (BoolAttr True)),
           Create (SPIRV_NVCooperativeMatrixStore
             (OpResult (OtherOp ''spirv.AccessChain'' [loweredBuffer, loweredI, loweredI]
                (PointerType (FloatType 32))))
             loweredM
             (OpResult (SPIRV_Constant (IntegerType 32) (IntegerAttr (IntegerType 32) 1)))
             (OpResult (SPIRV_Constant (IntegerType 1) (BoolAttr True))) None),
           Replace (GPU_SubgroupMmaStoreMatrix
                      (SubgroupMmaStoreMatrixOp matrixM buffer [indexI, indexI] 1 True))
             []])"
  using
    load_store_constants [where srcMemref = buffer and dstMemref = buffer
      and loadMemref = "MemRefType [32, 32] (FloatType 32)"
      and storeMemref = "MemRefType [32, 32] (FloatType 32)"
      and getElementPtr = accessChainElementPtr
      and indices = "[indexI, indexI]" and S = 16 and T = False
      and rows = 16 and cols = 16 and E = "FloatType 32" and operand = "''COp''"
      and loadAdaptor = "SubgroupMmaLoadMatrixOpAdaptor loweredBuffer [loweredI, loweredI]"
      and rewriter = "[]"
      and src = matrixM and indices' = "[indexI, indexI]" and S' = 1 and T' = True
      and storeAdaptor =
        "SubgroupMmaStoreMatrixOpAdaptor loweredM loweredBuffer [loweredI, loweredI]"
      and rewriter' = "[]"]
  by (simp add: example_values accessChainElementPtr_def create_def Let_def)

text \<open>
  The claim as stated fails for a stride that does not fit 32 bits: for the
  leading dimension \<open>2\<^sup>3\<^sup>2 + 16 = 4294967312\<close> the rule succeeds and the stride
  constant it emits is 16.
\<close>

theorem load_stride_counterexample:
  "WmmaLoadOpToSPIRVLowering_matchAndRewrite accessChainElementPtr
       (SubgroupMmaLoadMatrixOp buffer [indexI, indexI] 4294967312 False matrixF32)
       (SubgroupMmaLoadMatrixOpAdaptor loweredBuffer [loweredI, loweredI]) [] =
     Inr (success,
          [Create (OtherOp ''spirv.AccessChain'' [loweredBuffer, loweredI, loweredI]
             (PointerType (FloatType 32))),
           Create (SPIRV_Constant (IntegerType 32) (IntegerAttr (IntegerType 32) 16)),
           Create (SPIRV_Constant (IntegerType 1) (BoolAttr False)),
           Create (SPIRV_NVCooperativeMatrixLoad coopF32
             (OpResult (OtherOp ''spirv.AccessChain'' [loweredBuffer, loweredI, loweredI]
                (PointerType (FloatType 32))))
             (OpResult (SPIRV_Constant (IntegerType 32) (IntegerAttr (IntegerType 32) 16)))
             (OpResult (SPIRV_Constant (IntegerType 1) (BoolAttr False))) None),
           Replace (GPU_SubgroupMmaLoadMatrix
                      (SubgroupMmaLoadMatrixOp buffer [indexI, indexI] 4294967312 False
                         matrixF32))
             [OpResult (SPIRV_NVCooperativeMatrixLoad coopF32
                (OpResult (OtherOp ''spirv.AccessChain'' [loweredBuffer, loweredI, loweredI]
                   (PointerType (FloatType 32))))
                (OpResult (SPIRV_Constant (IntegerType 32) (IntegerAttr (IntegerType 32) 16)))
                (OpResult (SPIRV_Constant (IntegerType 1) (BoolAttr False))) None)]])
 \<and> sint (Load_getLeadDimension
       (SubgroupMmaLoadMatrixOp buffer [indexI, indexI] 4294967312 False matrixF32)) =
     4294967312"
  by (simp add: WmmaLoadOpToSPIRVLowering_matchAndRewrite_def Load_getRes_def
      convertMMAToSPIRVCoopMatrixNVType_def CooperativeMatrixNVType_get_def create_def
      accessChainElementPtr_def
      replaceOpWithNewOp_log getI1Type_def getBoolAttr_def getI32Type_def Let_def
      example_values)

subsection \<open>The multiply-accumulate rule\<close>

text \<open>
  C4: for every multiply-accumulate operation and converted operands
  \<open>(A, B, C)\<close> the rule succeeds, and what it adds to the rewriter is one
  target cooperative multiply-accumulate operation with the operands \<open>A\<close>,
  \<open>B\<close>, \<open>C\<close> in this order and the type of \<open>C\<close> as its result type, no type
  being translated, and the replacement of the operation by its result.
\<close>

theorem mma_operands_in_order:
  "WmmaMmaOpToSPIRVLowering_matchAndRewrite op (SubgroupMmaComputeOpAdaptor A B C) rewriter =
     Inr (success,
          rewriter @
            [Create (SPIRV_NVCooperativeMatrixMulAdd (getType C) A B C),
             Replace (GPU_SubgroupMmaCompute op)
               [OpResult (SPIRV_NVCooperativeMatrixMulAdd (getType C) A B C)]])"
  by (simp add: WmmaMmaOpToSPIRVLowering_matchAndRewrite_def replaceOpWithNewOp_log)

subsection \<open>Registration\<close>

text \<open>
  C7: the registration function appends to the pattern set the load,
  multiply-accumulate, store, constant-matrix and elementwise default rules
  with benefit 1 and the scalar-multiply fusion rule with benefit 2. For an
  elementwise operation (a float-multiply among them) the driver's candidates
  are then the fusion rule first and the default rule second, and the default
  rule is tried only when the fusion rule has declined.
\<close>

theorem registration_priorities:
  "populateGpuWMMAToSPIRVCoopMatrixNVConversionPatterns patterns =
     patterns @
       [(WmmaLoadOpToSPIRVLowering, 1), (WmmaMmaOpToSPIRVLowering, 1),
        (WmmaStoreOpToSPIRVLowering, 1), (WmmaConstantOpToSPIRVLowering, 1),
        (WmmaElementwiseOpToSPIRVDefaultLowering, 1),
        (WmmaElementwiseOpToSPIRVScalarMulLowering, 2)]
 \<and> candidates (populateGpuWMMAToSPIRVCoopMatrixNVConversionPatterns [])
       (GPU_SubgroupMmaElementwise op) =
     [WmmaElementwiseOpToSPIRVScalarMulLowering, WmmaElementwiseOpToSPIRVDefaultLowering]
 \<and> applyPatterns NDEBUG getElementPtr (populateGpuWMMAToSPIRVCoopMatrixNVConversionPatterns [])
       (GPU_SubgroupMmaElementwise op) operands rewriter =
     (case WmmaElementwiseOpToSPIRVScalarMulLowering_matchAndRewrite NDEBUG op
             (SubgroupMmaElementwiseOpAdaptor operands) rewriter of
        Inl e \<Rightarrow> Inl e
      | Inr (success, rewriter') \<Rightarrow> Inr (success, rewriter')
      | Inr (failure, rewriter') \<Rightarrow>
          (case WmmaElementwiseOpToSPIRVDefaultLowering_matchAndRewrite op
                  (SubgroupMmaElementwiseOpAdaptor operands) rewriter of
             Inl e \<Rightarrow> Inl e
           | Inr (success, rewriter'') \<Rightarrow> Inr (success, rewriter'')
           | Inr (failure, rewriter'') \<Rightarrow> Inr (failure, rewriter)))"
proof -
  have cands: "candidates (populateGpuWMMAToSPIRVCoopMatrixNVConversionPatterns [])
       (GPU_SubgroupMmaElementwise op) =
     [WmmaElementwiseOpToSPIRVScalarMulLowering, WmmaElementwiseOpToSPIRVDefaultLowering]"
    by (simp add: candidates_def populateGpuWMMAToSPIRVCoopMatrixNVConversionPatterns_def
        RewritePatternSet_add_def baselineBenefit_def)
  have "populateGpuWMMAToSPIRVCoopMatrixNVConversionPatterns patterns =
     patterns @
       [(WmmaLoadOpToSPIRVLowering, 1), (WmmaMmaOpToSPIRVLowering, 1),
        (WmmaStoreOpToSPIRVLowering, 1), (WmmaConstantOpToSPIRVLowering, 1),
        (WmmaElementwiseOpToSPIRVDefaultLowering, 1),
        (WmmaElementwiseOpToSPIRVScalarMulLowering, 2)]"
    by (simp add: populateGpuWMMAToSPIRVCoopMatrixNVConversionPatterns_def
        RewritePatternSet_add_def baselineBenefit_def)
  moreover have "applyPatterns NDEBUG getElementPtr
       (populateGpuWMMAToSPIRVCoopMatrixNVConversionPatterns [])
       (GPU_SubgroupMmaElementwise op) operands rewriter =
     (case WmmaElementwiseOpToSPIRVScalarMulLowering_matchAndRewrite NDEBUG op
             (SubgroupMmaElementwiseOpAdaptor operands) rewriter of
        Inl e \<Rightarrow> Inl e
      | Inr (success, rewriter') \<Rightarrow> Inr (success, rewriter')
      | Inr (failure, rewriter') \<Rightarrow>
          (case WmmaElementwiseOpToSPIRVDefaultLowering_matchAndRewrite op
                  (SubgroupMmaElementwiseOpAdaptor operands) rewriter of
             Inl e \<Rightarrow> Inl e
           | Inr (success, rewriter'') \<Rightarrow> Inr (success, rewriter'')
           | Inr (failure, rewriter'') \<Rightarrow> Inr (failure, rewriter)))"
    unfolding applyPatterns_def cands
    by (simp add: matchAndRewrite_def split: sum.splits prod.splits LogicalResult.splits)
  ultimately show ?thesis
    using cands by simp
qed

subsection \<open>Declining\<close>

text \<open>
  C8: whenever one of the six rules returns failure, the rewriter is as it
  was: no operation created, no operation replaced. (The load, store,
  multiply-accumulate and constant-matrix rules never return failure.) And
  when one of the two elementwise rules returns success, the rewriter has,
  after what it had, one created operation and the one replacement of the
  matched operation by the result of that operation: there is no third
  outcome that leaves a rewriter behind.
\<close>

theorem decline_is_atomic:
  "(WmmaLoadOpToSPIRVLowering_matchAndRewrite getElementPtr loadOp loadAdaptor rewriter =
      Inr (failure, rewriter') \<longrightarrow> rewriter' = rewriter)
 \<and> (WmmaStoreOpToSPIRVLowering_matchAndRewrite getElementPtr storeOp storeAdaptor rewriter =
      Inr (failure, rewriter') \<longrightarrow> rewriter' = rewriter)
 \<and> (WmmaMmaOpToSPIRVLowering_matchAndRewrite computeOp computeAdaptor rewriter =
      Inr (failure, rewriter') \<longrightarrow> rewriter' = rewriter)
 \<and> (WmmaConstantOpToSPIRVLowering_matchAndRewrite constantOp constantAdaptor rewriter =
      Inr (failure, rewriter') \<longrightarrow> rewriter' = rewriter)
 \<and> (WmmaElementwiseOpToSPIRVDefaultLowering_matchAndRewrite op adaptor rewriter =
      Inr (failure, rewriter') \<longrightarrow> rewriter' = rewriter)
 \<and> (WmmaElementwiseOpToSPIRVScalarMulLowering_matchAndRewrite NDEBUG op adaptor rewriter =
      Inr (failure, rewriter') \<longrightarrow> rewriter' = rewriter)
 \<and> (WmmaElementwiseOpToSPIRVDefaultLowering_matchAndRewrite op adaptor rewriter =
      Inr (success, rewriter') \<longrightarrow>
      (\<exists>new. rewriter' =
         rewriter @ [Create new, Replace (GPU_SubgroupMmaElementwise op) [OpResult new]]))
 \<and> (WmmaElementwiseOpToSPIRVScalarMulLowering_matchAndRewrite NDEBUG op adaptor rewriter =
      Inr (success, rewriter') \<longrightarrow>
      (\<exists>new. rewriter' =
         rewriter @ [Create new, Replace (GPU_SubgroupMmaElementwise op) [OpResult new]]))"
  using load_never_declines [of getElementPtr loadOp loadAdaptor rewriter rewriter']
    store_never_declines [of getElementPtr storeOp storeAdaptor rewriter rewriter']
    mma_never_declines [of computeOp computeAdaptor rewriter rewriter']
    constant_never_declines [of constantOp constantAdaptor rewriter rewriter']
    default_outcome [of op adaptor rewriter failure rewriter']
    default_outcome [of op adaptor rewriter success rewriter']
    scalarMul_outcome [of NDEBUG op adaptor rewriter failure rewriter']
    scalarMul_outcome [of NDEBUG op adaptor rewriter success rewriter']
  by simp

text \<open>
  The witness: on a rewriter that already holds a created operation, the
  default rule declines a float-multiply and the fusion rule declines a
  float-add, and the rewriter is as it was.
\<close>

theorem decline_is_atomic_witness:
  "WmmaElementwiseOpToSPIRVDefaultLowering_matchAndRewrite
       (SubgroupMmaElementwiseOp [matrixM, matrixN] MULF matrixF32)
       (SubgroupMmaElementwiseOpAdaptor [loweredM, loweredN])
       [Create (SPIRV_Constant (IntegerType 1) (BoolAttr True))] =
     Inr (failure, [Create (SPIRV_Constant (IntegerType 1) (BoolAttr True))])
 \<and> WmmaElementwiseOpToSPIRVScalarMulLowering_matchAndRewrite False
       (SubgroupMmaElementwiseOp [matrixM, matrixN] ADDF matrixF32)
       (SubgroupMmaElementwiseOpAdaptor [loweredM, loweredN])
       [Create (SPIRV_Constant (IntegerType 1) (BoolAttr True))] =
     Inr (failure, [Create (SPIRV_Constant (IntegerType 1) (BoolAttr True))])"
proof -
  obtain r1 where r1: "WmmaElementwiseOpToSPIRVDefaultLowering_matchAndRewrite
       (SubgroupMmaElementwiseOp [matrixM, matrixN] MULF matrixF32)
       (SubgroupMmaElementwiseOpAdaptor [loweredM, loweredN])
       [Create (SPIRV_Constant (IntegerType 1) (BoolAttr True))] = Inr (failure, r1)"
    by (simp add: WmmaElementwiseOpToSPIRVDefaultLowering_matchAndRewrite_def
        convertMMAToSPIRVCoopMatrixNVType_def CooperativeMatrixNVType_get_def success_if_def
        example_values)
  obtain r2 where r2: "WmmaElementwiseOpToSPIRVScalarMulLowering_matchAndRewrite False
       (SubgroupMmaElementwiseOp [matrixM, matrixN] ADDF matrixF32)
       (SubgroupMmaElementwiseOpAdaptor [loweredM, loweredN])
       [Create (SPIRV_Constant (IntegerType 1) (BoolAttr True))] = Inr (failure, r2)"
    by (simp add: WmmaElementwiseOpToSPIRVScalarMulLowering_matchAndRewrite_def
        example_values)
  from r1 r2 show ?thesis
    using
      decline_is_atomic [where NDEBUG = False and op = "SubgroupMmaElementwiseOp [matrixM, matrixN] MULF matrixF32"
        and adaptor = "SubgroupMmaElementwiseOpAdaptor [loweredM, loweredN]"
        and rewriter = "[Create (SPIRV_Constant (IntegerType 1) (BoolAttr True))]"
        and rewriter' = r1]
      decline_is_atomic [where NDEBUG = False and op = "SubgroupMmaElementwiseOp [matrixM, matrixN] ADDF matrixF32"
        and adaptor = "SubgroupMmaElementwiseOpAdaptor [loweredM, loweredN]"
        and rewriter = "[Create (SPIRV_Constant (IntegerType 1) (BoolAttr True))]"
        and rewriter' = r2]
    by simp
qed

subsection \<open>Lowered fragments\<close>

text \<open>
  C9: every registered rule has a root operation of the \<open>gpu\<close> dialect; so
  for an operation of the target (\<open>spirv\<close>) dialect the registered set has no
  candidate rule and applying it reports no match, the rewriter as it was; and
  applying it to a fragment all of whose operations are of the target dialect
  leaves the rewriter as it was.
\<close>

theorem lowered_fragment_is_fixpoint:
  "(\<forall>pattern. getDialectNamespace (rootKind pattern) = ''gpu'')
 \<and> (getDialectNamespace (getName op) = ''spirv'' \<longrightarrow>
      candidates (populateGpuWMMAToSPIRVCoopMatrixNVConversionPatterns []) op = [] \<and>
      applyPatterns NDEBUG getElementPtr (populateGpuWMMAToSPIRVCoopMatrixNVConversionPatterns [])
        op operands rewriter = Inr (failure, rewriter))
 \<and> ((\<forall>entry \<in> set fragment. getDialectNamespace (getName (fst entry)) = ''spirv'') \<longrightarrow>
      applyToFragment NDEBUG getElementPtr (populateGpuWMMAToSPIRVCoopMatrixNVConversionPatterns [])
        fragment rewriter = Inr rewriter)"
proof (intro conjI allI impI)
  fix pattern
  show "getDialectNamespace (rootKind pattern) = ''gpu''"
    by (cases pattern) (simp_all add: getDialectNamespace_def)
next
  assume "getDialectNamespace (getName op) = ''spirv''"
  then show "candidates (populateGpuWMMAToSPIRVCoopMatrixNVConversionPatterns []) op = []"
    by (rule no_candidates)
next
  assume "getDialectNamespace (getName op) = ''spirv''"
  then show "applyPatterns NDEBUG getElementPtr
        (populateGpuWMMAToSPIRVCoopMatrixNVConversionPatterns [])
        op operands rewriter = Inr (failure, rewriter)"
    by (simp add: applyPatterns_def no_candidates)
next
  assume "\<forall>entry \<in> set fragment. getDialectNamespace (getName (fst entry)) = ''spirv''"
  then show "applyToFragment NDEBUG getElementPtr
        (populateGpuWMMAToSPIRVCoopMatrixNVConversionPatterns [])
        fragment rewriter = Inr rewriter"
    by (rule fragment_untouched)
qed

text \<open>
  The witness: the fragment the fusion rule and the constant-matrix rule
  produce for \<open>k * M\<close>, a construct-from-scalar and a matrix-times-scalar.
\<close>

theorem lowered_fragment_is_fixpoint_witness:
  "applyPatterns False accessChainElementPtr
       (populateGpuWMMAToSPIRVCoopMatrixNVConversionPatterns [])
       (SPIRV_MatrixTimesScalar coopF32 [loweredM, scalarK]) [loweredM, scalarK] [] =
     Inr (failure, [])
 \<and> applyToFragment False accessChainElementPtr
       (populateGpuWMMAToSPIRVCoopMatrixNVConversionPatterns [])
       [(SPIRV_CompositeConstruct (CompositeConstructOp coopF32 [scalarK]), [scalarK]),
        (SPIRV_MatrixTimesScalar coopF32 [loweredM, scalarK], [loweredM, scalarK])] [] =
     Inr []"
  using
    lowered_fragment_is_fixpoint [where NDEBUG = False and op = "SPIRV_MatrixTimesScalar coopF32 [loweredM, scalarK]"
      and getElementPtr = accessChainElementPtr
      and operands = "[loweredM, scalarK]" and rewriter = "[]"
      and fragment =
        "[(SPIRV_CompositeConstruct (CompositeConstructOp coopF32 [scalarK]), [scalarK]),
          (SPIRV_MatrixTimesScalar coopF32 [loweredM, scalarK], [loweredM, scalarK])]"]
  by (simp add: getDialectNamespace_def)

end
